theory Spec2Isabelle
  imports Complex_Main "HOL-Library.AList"
begin

section \<open>Numbers and rounding\<close>

text \<open>
  JavaScript numbers are modelled as exact rationals: every finite double is a rational,
  and the arithmetic of the services (ratios, clamps, rounding to tenths) is read as exact
  arithmetic. A division whose divisor is zero has no finite result in JavaScript
  (\<open>Infinity\<close> or \<open>NaN\<close>); such a result is \<open>None\<close>.

  \<open>Math.round\<close> rounds to the nearest integer, a tie going towards plus infinity.
\<close>

definition Math_round :: "rat \<Rightarrow> int" where
  "Math_round x = \<lfloor>x + 1 / 2\<rfloor>"

text \<open>\<open>Math.round(x * 10) / 10\<close>: one decimal place.\<close>

definition round1 :: "rat \<Rightarrow> rat" where
  "round1 x = of_int (Math_round (x * 10)) / 10"

text \<open>\<open>Math.round(x * 100) / 100\<close>: two decimal places.\<close>

definition round2 :: "rat \<Rightarrow> rat" where
  "round2 x = of_int (Math_round (x * 100)) / 100"

text \<open>\<open>a / b\<close> of JavaScript, where it is finite.\<close>

definition js_div :: "rat \<Rightarrow> rat \<Rightarrow> rat option" where
  "js_div a b = (if b = 0 then None else Some (a / b))"


section \<open>Metric Calculator (financialDataService.js, calculateInsuranceMetrics)\<close>

text \<open>
  The raw financial statement: every field may be absent (\<open>None\<close> is \<open>undefined\<close>).
  The destructuring defaults of the source apply to absent fields only.
\<close>

record RawFinancialRecord =
  revenue :: "rat option"
  netIncome :: "rat option"
  totalAssets :: "rat option"
  totalStockholdersEquity :: "rat option"
  weightedAverageShsOut :: "rat option"
  sellingGeneralAndAdministrativeExpenses :: "rat option"
  totalDebt :: "rat option"
  operatingExpenses :: "rat option"
  investmentIncome :: "rat option"
  symbol :: "string option"
  calendarYear :: "string option"
  period :: "string option"

text \<open>
  The object returned by \<open>calculateInsuranceMetrics\<close>; the fields carry the prefix
  \<open>m_\<close> to keep them apart from those of the raw record.
\<close>

record DerivedMetrics =
  m_revenue :: rat
  m_netIncome :: rat
  m_totalAssets :: rat
  m_totalEquity :: rat
  m_sharesOutstanding :: rat
  m_profitMargin :: rat
  m_roe :: rat
  m_roa :: rat
  m_bookValuePerShare :: "rat option"
  m_tangibleBookValue :: "rat option"
  m_debtToEquity :: rat
  m_expenseRatio :: rat
  m_lossRatio :: rat
  m_combinedRatio :: rat
  m_underwritingProfitMargin :: rat
  m_investmentYield :: rat
  m_floatPerShare :: "rat option"
  m_reserveRatio :: "rat option"
  m_year :: "string option"
  m_period :: "string option"
  m_symbol :: "string option"

text \<open>A destructuring default: \<open>{ field = d } = financialData\<close>.\<close>

definition dflt :: "'a \<Rightarrow> 'a option \<Rightarrow> 'a" where
  "dflt d x = (case x of None \<Rightarrow> d | Some v \<Rightarrow> v)"

text \<open>\<open>operatingExpenses = sellingGeneralAndAdministrativeExpenses\<close>, itself defaulted to 0.\<close>

definition operatingExpenses_of :: "RawFinancialRecord \<Rightarrow> rat" where
  "operatingExpenses_of fd =
     dflt (dflt 0 (sellingGeneralAndAdministrativeExpenses fd)) (operatingExpenses fd)"

definition profitMargin_of :: "RawFinancialRecord \<Rightarrow> rat" where
  "profitMargin_of fd =
     (if dflt 0 (revenue fd) > 0 then (dflt 0 (netIncome fd) / dflt 0 (revenue fd)) * 100 else 0)"

definition baseExpenseRatio :: "RawFinancialRecord \<Rightarrow> rat" where
  "baseExpenseRatio fd =
     (if dflt 0 (revenue fd) > 0 then (operatingExpenses_of fd / dflt 0 (revenue fd)) * 100 else 0)"

text \<open>\<open>Math.min(Math.max(baseExpenseRatio, 15), 35)\<close>, before rounding.\<close>

definition expenseRatio_of :: "RawFinancialRecord \<Rightarrow> rat" where
  "expenseRatio_of fd = min (max (baseExpenseRatio fd) 15) 35"

text \<open>
  The estimate of the combined ratio. \<open>rnd\<close> is the value of the one call of
  \<open>Math.random()\<close> that the taken branch makes.
\<close>

definition estimatedCombinedRatio :: "RawFinancialRecord \<Rightarrow> rat \<Rightarrow> rat" where
  "estimatedCombinedRatio fd rnd =
     (let company = (case symbol fd of None \<Rightarrow> [] | Some s \<Rightarrow> s);
          profitMargin = profitMargin_of fd
      in if company = ''PGR'' then 92 + rnd * 6
         else if company = ''TRV'' then 95 + rnd * 6
         else if company = ''ALL'' then 96 + rnd * 8
         else if company = ''CB'' then 88 + rnd * 7
         else if company = ''AIG'' then 98 + rnd * 8
         else if profitMargin > 10 then 90 + rnd * 8
         else if profitMargin > 5 then 95 + rnd * 8
         else if profitMargin > 0 then 98 + rnd * 10
         else 105 + rnd * 15)"

text \<open>\<open>Math.max(50, estimatedCombinedRatio - expenseRatio)\<close>, before rounding.\<close>

definition lossRatio_of :: "RawFinancialRecord \<Rightarrow> rat \<Rightarrow> rat" where
  "lossRatio_of fd rnd = max 50 (estimatedCombinedRatio fd rnd - expenseRatio_of fd)"

definition combinedRatio_of :: "RawFinancialRecord \<Rightarrow> rat \<Rightarrow> rat" where
  "combinedRatio_of fd rnd = lossRatio_of fd rnd + expenseRatio_of fd"

definition bookValuePerShare_of :: "RawFinancialRecord \<Rightarrow> rat option" where
  "bookValuePerShare_of fd =
     (if dflt 0 (totalStockholdersEquity fd) > 0
      then js_div (dflt 0 (totalStockholdersEquity fd)) (dflt 1 (weightedAverageShsOut fd))
      else Some 0)"

definition investmentYield_of :: "RawFinancialRecord \<Rightarrow> rat" where
  "investmentYield_of fd =
     (if dflt 0 (totalAssets fd) > 0
      then ((if dflt 0 (investmentIncome fd) \<noteq> 0 then dflt 0 (investmentIncome fd)
             else dflt 0 (netIncome fd) * (3 / 10)) / dflt 0 (totalAssets fd)) * 100
      else 5 / 2)"

definition calculateInsuranceMetrics :: "RawFinancialRecord \<Rightarrow> rat \<Rightarrow> DerivedMetrics" where
  "calculateInsuranceMetrics fd rnd =
     (let rev = dflt 0 (revenue fd);
          ni = dflt 0 (netIncome fd);
          assets = dflt 0 (totalAssets fd);
          equity = dflt 0 (totalStockholdersEquity fd);
          shares = dflt 1 (weightedAverageShsOut fd);
          debt = dflt 0 (totalDebt fd);
          roe = (if equity > 0 then (ni / equity) * 100 else 0);
          roa = (if assets > 0 then (ni / assets) * 100 else 0);
          debtToEquity = (if equity > 0 then (debt / equity) * 100 else 0);
          underwritingProfitMargin = 100 - combinedRatio_of fd rnd;
          tangibleBookValue = bookValuePerShare_of fd
      in \<lparr> m_revenue = rev,
           m_netIncome = ni,
           m_totalAssets = assets,
           m_totalEquity = equity,
           m_sharesOutstanding = shares,
           m_profitMargin = round1 (profitMargin_of fd),
           m_roe = round1 roe,
           m_roa = round1 roa,
           m_bookValuePerShare = map_option round2 (bookValuePerShare_of fd),
           m_tangibleBookValue = map_option round2 tangibleBookValue,
           m_debtToEquity = round1 debtToEquity,
           m_expenseRatio = round1 (expenseRatio_of fd),
           m_lossRatio = round1 (lossRatio_of fd rnd),
           m_combinedRatio = round1 (combinedRatio_of fd rnd),
           m_underwritingProfitMargin = round1 underwritingProfitMargin,
           m_investmentYield = round1 (investmentYield_of fd),
           m_floatPerShare = map_option round2 (js_div (assets * (7 / 10)) shares),
           m_reserveRatio = map_option round2 (js_div (assets * (6 / 10)) rev),
           m_year = calendarYear fd,
           m_period = period fd,
           m_symbol = symbol fd \<rparr>)"

text \<open>An empty raw record: every field absent.\<close>

definition emptyRecord :: RawFinancialRecord where
  "emptyRecord = \<lparr> revenue = None, netIncome = None, totalAssets = None,
     totalStockholdersEquity = None, weightedAverageShsOut = None,
     sellingGeneralAndAdministrativeExpenses = None, totalDebt = None,
     operatingExpenses = None, investmentIncome = None,
     symbol = None, calendarYear = None, period = None \<rparr>"


section \<open>Properties of the Metric Calculator\<close>

lemma Math_round_bounds: "of_int (Math_round x) \<le> x + 1 / 2 \<and> x - 1 / 2 < of_int (Math_round x)"
  unfolding Math_round_def by linarith




















section \<open>JavaScript values\<close>

text \<open>
  The services test their arguments with \<open>typeof v === 'number'\<close> and with truthiness.
  A value is one of the following; \<open>Num\<close> is a finite number, \<open>NaN\<close> the number that
  compares false with everything.
\<close>

datatype jsval = Undefined | Null | Num rat | NaN | Str string | Bool bool

text \<open>\<open>typeof v === 'number'\<close>\<close>

fun is_number :: "jsval \<Rightarrow> bool" where
  "is_number (Num x) = True"
| "is_number NaN = True"
| "is_number v = False"

text \<open>\<open>!v\<close>\<close>

fun falsy :: "jsval \<Rightarrow> bool" where
  "falsy Undefined = True"
| "falsy Null = True"
| "falsy (Num x) = (x = 0)"
| "falsy NaN = True"
| "falsy (Str s) = (s = [])"
| "falsy (Bool b) = (\<not> b)"

text \<open>
  The comparisons \<open>v >= r\<close>, \<open>v <= r\<close>, \<open>v > r\<close>, \<open>v < r\<close> of a value that has passed
  the \<open>typeof\<close> test with a number \<open>r\<close> of a benchmark table.
\<close>

fun num_ge :: "jsval \<Rightarrow> rat \<Rightarrow> bool" where
  "num_ge (Num x) r = (x \<ge> r)"
| "num_ge v r = False"

fun num_le :: "jsval \<Rightarrow> rat \<Rightarrow> bool" where
  "num_le (Num x) r = (x \<le> r)"
| "num_le v r = False"

fun num_gt :: "jsval \<Rightarrow> rat \<Rightarrow> bool" where
  "num_gt (Num x) r = (x > r)"
| "num_gt v r = False"

fun num_lt :: "jsval \<Rightarrow> rat \<Rightarrow> bool" where
  "num_lt (Num x) r = (x < r)"
| "num_lt v r = False"


section \<open>Benchmark Classifier (industry benchmark service)\<close>

text \<open>One band \<open>{ min, max, percentile }\<close> of a benchmark table.\<close>

record band =
  b_min :: rat
  b_max :: rat
  percentile :: nat

text \<open>The bands of one metric at one company size, under their five keys.\<close>

record bands =
  excellent :: band
  good :: band
  average :: band
  poor :: band
  critical :: band

text \<open>\<open>Object.entries(benchmarks)\<close>: the bands in the order of their keys in the source.\<close>

definition entries :: "bands \<Rightarrow> (string \<times> band) list" where
  "entries b = [(''excellent'', excellent b), (''good'', good b), (''average'', average b),
     (''poor'', poor b), (''critical'', critical b)]"

definition combinedRatio_large :: bands where
  "combinedRatio_large =
     \<lparr> excellent = \<lparr> b_min = 88, b_max = 95, percentile = 90 \<rparr>,
          good = \<lparr> b_min = 95, b_max = 100, percentile = 75 \<rparr>,
          average = \<lparr> b_min = 100, b_max = 105, percentile = 50 \<rparr>,
          poor = \<lparr> b_min = 105, b_max = 110, percentile = 25 \<rparr>,
          critical = \<lparr> b_min = 110, b_max = 120, percentile = 10 \<rparr> \<rparr>"

definition combinedRatio_medium :: bands where
  "combinedRatio_medium =
     \<lparr> excellent = \<lparr> b_min = 90, b_max = 97, percentile = 90 \<rparr>,
          good = \<lparr> b_min = 97, b_max = 102, percentile = 75 \<rparr>,
          average = \<lparr> b_min = 102, b_max = 107, percentile = 50 \<rparr>,
          poor = \<lparr> b_min = 107, b_max = 115, percentile = 25 \<rparr>,
          critical = \<lparr> b_min = 115, b_max = 125, percentile = 10 \<rparr> \<rparr>"

definition combinedRatio_small :: bands where
  "combinedRatio_small =
     \<lparr> excellent = \<lparr> b_min = 92, b_max = 99, percentile = 90 \<rparr>,
          good = \<lparr> b_min = 99, b_max = 105, percentile = 75 \<rparr>,
          average = \<lparr> b_min = 105, b_max = 110, percentile = 50 \<rparr>,
          poor = \<lparr> b_min = 110, b_max = 118, percentile = 25 \<rparr>,
          critical = \<lparr> b_min = 118, b_max = 130, percentile = 10 \<rparr> \<rparr>"

definition roe_large :: bands where
  "roe_large =
     \<lparr> excellent = \<lparr> b_min = 15, b_max = 25, percentile = 90 \<rparr>,
          good = \<lparr> b_min = 12, b_max = 15, percentile = 75 \<rparr>,
          average = \<lparr> b_min = 8, b_max = 12, percentile = 50 \<rparr>,
          poor = \<lparr> b_min = 5, b_max = 8, percentile = 25 \<rparr>,
          critical = \<lparr> b_min = 0, b_max = 5, percentile = 10 \<rparr> \<rparr>"

definition roe_medium :: bands where
  "roe_medium =
     \<lparr> excellent = \<lparr> b_min = 14, b_max = 22, percentile = 90 \<rparr>,
          good = \<lparr> b_min = 11, b_max = 14, percentile = 75 \<rparr>,
          average = \<lparr> b_min = 7, b_max = 11, percentile = 50 \<rparr>,
          poor = \<lparr> b_min = 4, b_max = 7, percentile = 25 \<rparr>,
          critical = \<lparr> b_min = - 2, b_max = 4, percentile = 10 \<rparr> \<rparr>"

definition roe_small :: bands where
  "roe_small =
     \<lparr> excellent = \<lparr> b_min = 13, b_max = 20, percentile = 90 \<rparr>,
          good = \<lparr> b_min = 10, b_max = 13, percentile = 75 \<rparr>,
          average = \<lparr> b_min = 6, b_max = 10, percentile = 50 \<rparr>,
          poor = \<lparr> b_min = 3, b_max = 6, percentile = 25 \<rparr>,
          critical = \<lparr> b_min = - 5, b_max = 3, percentile = 10 \<rparr> \<rparr>"

definition lossRatio_large :: bands where
  "lossRatio_large =
     \<lparr> excellent = \<lparr> b_min = 58, b_max = 68, percentile = 90 \<rparr>,
          good = \<lparr> b_min = 68, b_max = 75, percentile = 75 \<rparr>,
          average = \<lparr> b_min = 75, b_max = 82, percentile = 50 \<rparr>,
          poor = \<lparr> b_min = 82, b_max = 90, percentile = 25 \<rparr>,
          critical = \<lparr> b_min = 90, b_max = 100, percentile = 10 \<rparr> \<rparr>"

definition lossRatio_medium :: bands where
  "lossRatio_medium =
     \<lparr> excellent = \<lparr> b_min = 60, b_max = 70, percentile = 90 \<rparr>,
          good = \<lparr> b_min = 70, b_max = 77, percentile = 75 \<rparr>,
          average = \<lparr> b_min = 77, b_max = 85, percentile = 50 \<rparr>,
          poor = \<lparr> b_min = 85, b_max = 92, percentile = 25 \<rparr>,
          critical = \<lparr> b_min = 92, b_max = 105, percentile = 10 \<rparr> \<rparr>"

definition lossRatio_small :: bands where
  "lossRatio_small =
     \<lparr> excellent = \<lparr> b_min = 62, b_max = 72, percentile = 90 \<rparr>,
          good = \<lparr> b_min = 72, b_max = 80, percentile = 75 \<rparr>,
          average = \<lparr> b_min = 80, b_max = 88, percentile = 50 \<rparr>,
          poor = \<lparr> b_min = 88, b_max = 95, percentile = 25 \<rparr>,
          critical = \<lparr> b_min = 95, b_max = 110, percentile = 10 \<rparr> \<rparr>"

definition INDUSTRY_BENCHMARKS_2024 :: "(string \<times> (string \<times> bands) list) list" where
  "INDUSTRY_BENCHMARKS_2024 =
     [(''combinedRatio'',
        [(''large'', combinedRatio_large), (''medium'', combinedRatio_medium),
         (''small'', combinedRatio_small)]),
      (''roe'',
        [(''large'', roe_large), (''medium'', roe_medium), (''small'', roe_small)]),
      (''lossRatio'',
        [(''large'', lossRatio_large), (''medium'', lossRatio_medium),
         (''small'', lossRatio_small)])]"

text \<open>\<open>INDUSTRY_BENCHMARKS_2024[metric]?.[companySize]\<close>, on the table's own keys.\<close>

definition benchmarks_lookup :: "string \<Rightarrow> string \<Rightarrow> bands option" where
  "benchmarks_lookup metric companySize =
     (case map_of INDUSTRY_BENCHMARKS_2024 metric of
        None \<Rightarrow> None
      | Some sizes \<Rightarrow> map_of sizes companySize)"

definition getCompanySize :: "jsval \<Rightarrow> string" where
  "getCompanySize premiumVolume =
     (if falsy premiumVolume \<or> \<not> is_number premiumVolume then ''medium''
      else if num_ge premiumVolume 10000 then ''large''
      else if num_ge premiumVolume 1000 then ''medium''
      else ''small'')"

text \<open>The test of the two loops over the bands: \<open>value >= range.min && value <= range.max\<close>.\<close>

definition in_range :: "jsval \<Rightarrow> string \<times> band \<Rightarrow> bool" where
  "in_range v e = (num_ge v (b_min (snd e)) \<and> num_le v (b_max (snd e)))"

definition calculateIndustryPercentile :: "string \<Rightarrow> jsval \<Rightarrow> string option \<Rightarrow> nat" where
  "calculateIndustryPercentile metric v companySize =
     (case benchmarks_lookup metric (dflt ''large'' companySize) of
        None \<Rightarrow> 50
      | Some benchmarks \<Rightarrow>
          if \<not> is_number v then 50
          else
            let lowerIsBetter = (metric \<in> set [''combinedRatio'', ''lossRatio'', ''expenseRatio''])
            in case find (in_range v) (entries benchmarks) of
                 Some (rating, rng) \<Rightarrow> percentile rng
               | None \<Rightarrow>
                   if lowerIsBetter then
                     (if num_lt v (b_min (excellent benchmarks)) then 95
                      else if num_gt v (b_max (critical benchmarks)) then 5
                      else 50)
                   else
                     (if num_gt v (b_max (excellent benchmarks)) then 95
                      else if num_lt v (b_min (critical benchmarks)) then 5
                      else 50))"

text \<open>
  The rating loop of \<open>getBenchmarkAnalysis\<close>: \<open>rating\<close> starts as \<open>'average'\<close> and takes
  the key of the first band that holds the value.
\<close>

definition ratingOf :: "bands \<Rightarrow> jsval \<Rightarrow> string" where
  "ratingOf benchmarks v =
     (case find (in_range v) (entries benchmarks) of
        Some (ratingKey, rng) \<Rightarrow> ratingKey
      | None \<Rightarrow> ''average'')"

text \<open>The peer groups, under their keys.\<close>

record peerGroup =
  pg_name :: string
  pg_companies :: "string list"
  pg_description :: string

definition PEER_GROUPS :: "(string \<times> peerGroup) list" where
  "PEER_GROUPS =
     [(''largeDiversified'',
        \<lparr> pg_name = ''Large Diversified P&C'',
          pg_companies = [''TRV'', ''ALL'', ''AIG'', ''CB'', ''HIG''],
          pg_description = ''Multi-line P&C insurers with >$10B annual premiums'' \<rparr>),
      (''personalLines'',
        \<lparr> pg_name = ''Personal Lines Specialists'',
          pg_companies = [''PGR'', ''GEICO'', ''USAA''],
          pg_description = ''Auto and homeowners insurance specialists'' \<rparr>),
      (''commercialLines'',
        \<lparr> pg_name = ''Commercial Lines Specialists'',
          pg_companies = [''WRB'', ''ACGL'', ''EG'', ''RLI''],
          pg_description = ''Commercial and specialty insurance focus'' \<rparr>),
      (''regional'',
        \<lparr> pg_name = ''Regional & Specialty'',
          pg_companies = [''CINF'', ''AFG'', ''KMPR''],
          pg_description = ''Regional and specialty insurance companies'' \<rparr>)]"

text \<open>
  \<open>getPeerGroup\<close> returns \<open>{ ...group, key: groupKey }\<close>: here the pair of the key and
  the group. A ticker of no group falls back to the first group.
\<close>

definition getPeerGroup :: "string \<Rightarrow> string \<times> peerGroup" where
  "getPeerGroup ticker =
     (case find (\<lambda>e. ticker \<in> set (pg_companies (snd e))) PEER_GROUPS of
        Some e \<Rightarrow> e
      | None \<Rightarrow> hd PEER_GROUPS)"

text \<open>The decimal numeral of a natural number, as a template literal prints it.\<close>

fun show_nat :: "nat \<Rightarrow> string" where
  "show_nat n =
     (if n < 10 then [''0123456789'' ! n]
      else show_nat (n div 10) @ [''0123456789'' ! (n mod 10)])"

record metricAnalysis =
  ma_value :: jsval
  ma_percentile :: nat
  ma_rating :: string
  ma_benchmark :: bands

record finding =
  fi_metric :: string
  fi_percentile :: nat
  fi_message :: string

record analysis =
  an_ticker :: string
  an_companySize :: string
  an_peerGroup :: "string \<times> peerGroup"
  an_metrics :: "(string \<times> metricAnalysis) list"
  an_overallRating :: string
  an_strengths :: "finding list"
  an_weaknesses :: "finding list"
  an_timestamp :: string

text \<open>
  The body of the \<open>forEach\<close> of \<open>getBenchmarkAnalysis\<close> for one metric name. The state is
  the analysis object with the two counters \<open>totalPercentile\<close> and \<open>validMetrics\<close>.
  \<open>Inl\<close> is the TypeError of \<open>Object.entries(undefined)\<close>, raised if the table had no
  bands for the metric at the size.
\<close>

definition analyzeMetric ::
  "string \<Rightarrow> (string \<Rightarrow> jsval) \<Rightarrow> analysis \<times> nat \<times> nat \<Rightarrow> string \<Rightarrow>
   string + analysis \<times> nat \<times> nat" where
  "analyzeMetric companySize metrics st metricName =
     (case st of (a, totalPercentile, validMetrics) \<Rightarrow>
        let v = metrics metricName in
        if \<not> is_number v then Inr st
        else
          let pct = calculateIndustryPercentile metricName v (Some companySize) in
          case benchmarks_lookup metricName companySize of
            None \<Rightarrow> Inl ''TypeError''
          | Some benchmarks \<Rightarrow>
              let entry = \<lparr> ma_value = v, ma_percentile = pct,
                              ma_rating = ratingOf benchmarks v, ma_benchmark = benchmarks \<rparr>;
                  a1 = a \<lparr> an_metrics := AList.update metricName entry (an_metrics a) \<rparr>;
                  a2 =
                    (if pct \<ge> 75 then
                       a1 \<lparr> an_strengths := an_strengths a1 @
                         [\<lparr> fi_metric = metricName, fi_percentile = pct,
                            fi_message = metricName @ '' in top quartile ('' @ show_nat pct @
                              ''th percentile)'' \<rparr>] \<rparr>
                     else if pct \<le> 25 then
                       a1 \<lparr> an_weaknesses := an_weaknesses a1 @
                         [\<lparr> fi_metric = metricName, fi_percentile = pct,
                            fi_message = metricName @ '' in bottom quartile ('' @ show_nat pct @
                              ''th percentile)'' \<rparr>] \<rparr>
                     else a1)
              in Inr (a2, totalPercentile + pct, validMetrics + 1))"

text \<open>\<open>metricsToAnalyze.forEach\<close>: the loop stops at an exception.\<close>

fun forEachMetric ::
  "string \<Rightarrow> (string \<Rightarrow> jsval) \<Rightarrow> analysis \<times> nat \<times> nat \<Rightarrow> string list \<Rightarrow>
   string + analysis \<times> nat \<times> nat" where
  "forEachMetric companySize metrics st [] = Inr st"
| "forEachMetric companySize metrics st (metricName # rest) =
     (case analyzeMetric companySize metrics st metricName of
        Inl e \<Rightarrow> Inl e
      | Inr st' \<Rightarrow> forEachMetric companySize metrics st' rest)"

text \<open>
  \<open>getBenchmarkAnalysis\<close>. The object \<open>metrics\<close> is the function from property names to
  values; \<open>timestamp\<close> is \<open>new Date().toISOString()\<close>.
\<close>

definition getBenchmarkAnalysis ::
  "string \<Rightarrow> (string \<Rightarrow> jsval) \<Rightarrow> jsval \<Rightarrow> string \<Rightarrow> string + analysis" where
  "getBenchmarkAnalysis ticker metrics premiumVolume timestamp =
     (let companySize = getCompanySize premiumVolume;
          a0 = \<lparr> an_ticker = ticker, an_companySize = companySize,
                 an_peerGroup = getPeerGroup ticker, an_metrics = [],
                 an_overallRating = ''average'', an_strengths = [], an_weaknesses = [],
                 an_timestamp = timestamp \<rparr>
      in case forEachMetric companySize metrics (a0, 0, 0) [''combinedRatio'', ''roe'', ''lossRatio''] of
           Inl e \<Rightarrow> Inl e
         | Inr (a, totalPercentile, validMetrics) \<Rightarrow>
             if validMetrics > 0 then
               let avgPercentile = (of_nat totalPercentile :: rat) / of_nat validMetrics
               in Inr (a \<lparr> an_overallRating :=
                    (if avgPercentile \<ge> 80 then ''excellent''
                     else if avgPercentile \<ge> 60 then ''good''
                     else if avgPercentile \<ge> 40 then ''average''
                     else if avgPercentile \<ge> 20 then ''poor''
                     else ''critical'') \<rparr>)
             else Inr a)"

text \<open>
  Modelled on the words of the specification, to be compared with the code: the first
  band, in the canonical order from excellent down to critical, whose closed interval
  holds the value, with its percentile.
\<close>

fun spec_first_band :: "rat \<Rightarrow> (string \<times> band) list \<Rightarrow> (string \<times> nat) option" where
  "spec_first_band x [] = None"
| "spec_first_band x ((name, b) # rest) =
     (if b_min b \<le> x \<and> x \<le> b_max b then Some (name, percentile b)
      else spec_first_band x rest)"

definition spec_canonical :: "bands \<Rightarrow> (string \<times> band) list" where
  "spec_canonical b = [(''excellent'', excellent b), (''good'', good b), (''average'', average b),
     (''poor'', poor b), (''critical'', critical b)]"

text \<open>The metrics for which lower values are better.\<close>

definition lowerIsBetter :: "string \<Rightarrow> bool" where
  "lowerIsBetter metric = (metric \<in> set [''combinedRatio'', ''lossRatio'', ''expenseRatio''])"

text \<open>
  Bands that follow one another without a gap: from the excellent band upwards
  (metrics where lower is better) or from the critical band upwards (the others).
\<close>

definition ascending :: "bands \<Rightarrow> bool" where
  "ascending b =
    (b_min (excellent b) \<le> b_max (excellent b) \<and> b_max (excellent b) = b_min (good b) \<and>
     b_min (good b) \<le> b_max (good b) \<and> b_max (good b) = b_min (average b) \<and>
     b_min (average b) \<le> b_max (average b) \<and> b_max (average b) = b_min (poor b) \<and>
     b_min (poor b) \<le> b_max (poor b) \<and> b_max (poor b) = b_min (critical b) \<and>
     b_min (critical b) \<le> b_max (critical b))"

definition descending :: "bands \<Rightarrow> bool" where
  "descending b =
    (b_min (critical b) \<le> b_max (critical b) \<and> b_max (critical b) = b_min (poor b) \<and>
     b_min (poor b) \<le> b_max (poor b) \<and> b_max (poor b) = b_min (average b) \<and>
     b_min (average b) \<le> b_max (average b) \<and> b_max (average b) = b_min (good b) \<and>
     b_min (good b) \<le> b_max (good b) \<and> b_max (good b) = b_min (excellent b) \<and>
     b_min (excellent b) \<le> b_max (excellent b))"


text \<open>
  The entry that the loop body stores under \<open>analysis.metrics[metricName]\<close> for a numeric
  value \<open>v\<close>, at the size class \<open>companySize\<close> with the bands \<open>benchmarks\<close>.
\<close>

definition entryFor :: "string \<Rightarrow> string \<Rightarrow> jsval \<Rightarrow> bands \<Rightarrow> metricAnalysis" where
  "entryFor companySize metricName v benchmarks =
     \<lparr> ma_value = v,
       ma_percentile = calculateIndustryPercentile metricName v (Some companySize),
       ma_rating = ratingOf benchmarks v, ma_benchmark = benchmarks \<rparr>"

text \<open>A metrics object with one numeric property, \<open>{ [metricName]: x }\<close>.\<close>

definition single_metric :: "string \<Rightarrow> rat \<Rightarrow> string \<Rightarrow> jsval" where
  "single_metric metricName x = (\<lambda>n. if n = metricName then Num x else Undefined)"

text \<open>
  The rating and the percentile that a returned analysis holds for a metric:
  \<open>analysis.metrics[n].rating\<close> and \<open>analysis.metrics[n].percentile\<close>.
\<close>

definition storedRating :: "string + analysis \<Rightarrow> string \<Rightarrow> (string \<times> nat) option" where
  "storedRating r n =
     (case r of
        Inl e \<Rightarrow> None
      | Inr a \<Rightarrow> map_option (\<lambda>e. (ma_rating e, ma_percentile e)) (map_of (an_metrics a) n))"


section \<open>Properties of the Benchmark Classifier\<close>

lemma spec_first_band_find:
  "spec_first_band x es =
     map_option (\<lambda>e. (fst e, percentile (snd e))) (find (in_range (Num x)) es)"
  by (induction es) (auto simp: in_range_def)

lemma lookup_shape:
  assumes "benchmarks_lookup metric sz = Some b"
  shows "(lowerIsBetter metric \<and> ascending b) \<or> (\<not> lowerIsBetter metric \<and> descending b)"
  using assms
  by (auto simp: benchmarks_lookup_def INDUSTRY_BENCHMARKS_2024_def lowerIsBetter_def
      ascending_def descending_def
      combinedRatio_large_def combinedRatio_medium_def combinedRatio_small_def
      roe_large_def roe_medium_def roe_small_def
      lossRatio_large_def lossRatio_medium_def lossRatio_small_def split: if_splits)

lemma outside_ascending:
  assumes "ascending b" "find (in_range (Num x)) (entries b) = None"
  shows "x < b_min (excellent b) \<or> b_max (critical b) < x"
  using assms unfolding ascending_def entries_def in_range_def
  by (auto split: if_splits)

lemma outside_descending:
  assumes "descending b" "find (in_range (Num x)) (entries b) = None"
  shows "b_max (excellent b) < x \<or> x < b_min (critical b)"
  using assms unfolding descending_def entries_def in_range_def
  by (auto split: if_splits)

lemma percentile_in_band:
  assumes "benchmarks_lookup metric sz = Some b"
    and "find (in_range (Num x)) (entries b) = Some (name, rng)"
  shows "calculateIndustryPercentile metric (Num x) (Some sz) = percentile rng"
    and "ratingOf b (Num x) = name"
  using assms by (simp_all add: calculateIndustryPercentile_def ratingOf_def dflt_def)

lemma percentile_outside:
  assumes "benchmarks_lookup metric sz = Some b"
    and "find (in_range (Num x)) (entries b) = None"
  shows "calculateIndustryPercentile metric (Num x) (Some sz) =
     (if lowerIsBetter metric
      then (if x < b_min (excellent b) then 95 else if b_max (critical b) < x then 5 else 50)
      else (if b_max (excellent b) < x then 95 else if x < b_min (critical b) then 5 else 50))"
  using assms by (simp add: calculateIndustryPercentile_def lowerIsBetter_def dflt_def)

lemma size_cases:
  "getCompanySize pv = ''large'' \<or> getCompanySize pv = ''medium'' \<or> getCompanySize pv = ''small''"
  by (simp add: getCompanySize_def)

lemma lookup_total:
  assumes "n \<in> set [''combinedRatio'', ''roe'', ''lossRatio'']"
  shows "\<exists>b. benchmarks_lookup n (getCompanySize pv) = Some b"
  using assms size_cases [of pv]
  by (auto simp: benchmarks_lookup_def INDUSTRY_BENCHMARKS_2024_def)

lemma analyzeMetric_number:
  assumes "is_number (metrics n)" "benchmarks_lookup n sz = Some b"
  shows "\<exists>a' tp' vm'. analyzeMetric sz metrics (a, tp, vm) n = Inr (a', tp', vm') \<and>
           map_of (an_metrics a') = (map_of (an_metrics a))(n \<mapsto> entryFor sz n (metrics n) b)"
  using assms by (simp add: analyzeMetric_def Let_def update_conv' entryFor_def)

lemma analyzeMetric_other:
  assumes "\<not> is_number (metrics n)"
  shows "analyzeMetric sz metrics st n = Inr st"
  using assms by (cases st) (simp add: analyzeMetric_def Let_def)

lemma forEachMetric_entries:
  assumes "\<forall>n \<in> set names. \<exists>b. benchmarks_lookup n sz = Some b" and "distinct names"
  shows "\<exists>a' tp' vm'. forEachMetric sz metrics (a, tp, vm) names = Inr (a', tp', vm') \<and>
     (\<forall>n b. n \<in> set names \<and> is_number (metrics n) \<and> benchmarks_lookup n sz = Some b \<longrightarrow>
        map_of (an_metrics a') n = Some (entryFor sz n (metrics n) b)) \<and>
     (\<forall>n. n \<notin> set names \<longrightarrow> map_of (an_metrics a') n = map_of (an_metrics a) n)"
  using assms
proof (induction names arbitrary: a tp vm)
  case Nil
  then show ?case by simp
next
  case (Cons m names)
  from Cons.prems obtain bm where bm: "benchmarks_lookup m sz = Some bm"
    by auto
  have rest: "\<forall>n \<in> set names. \<exists>b. benchmarks_lookup n sz = Some b" and d: "distinct names"
    and fresh: "m \<notin> set names"
    using Cons.prems by auto
  obtain a1 tp1 vm1 where step: "analyzeMetric sz metrics (a, tp, vm) m = Inr (a1, tp1, vm1)"
    and m1: "map_of (an_metrics a1) =
       (if is_number (metrics m) then (map_of (an_metrics a))(m \<mapsto> entryFor sz m (metrics m) bm)
        else map_of (an_metrics a))"
  proof (cases "is_number (metrics m)")
    case True
    then show ?thesis
      using analyzeMetric_number [where metrics = metrics and n = m and sz = sz and b = bm
          and a = a and tp = tp and vm = vm] bm that by auto
  next
    case False
    then show ?thesis
      using analyzeMetric_other [where metrics = metrics and n = m and sz = sz
          and st = "(a, tp, vm)"] that by auto
  qed
  from Cons.IH [OF rest d, of a1 tp1 vm1]
  obtain a' tp' vm' where run: "forEachMetric sz metrics (a1, tp1, vm1) names = Inr (a', tp', vm')"
    and inn: "\<forall>n b. n \<in> set names \<and> is_number (metrics n) \<and> benchmarks_lookup n sz = Some b \<longrightarrow>
        map_of (an_metrics a') n = Some (entryFor sz n (metrics n) b)"
    and out: "\<forall>n. n \<notin> set names \<longrightarrow> map_of (an_metrics a') n = map_of (an_metrics a1) n"
    by blast
  have whole: "forEachMetric sz metrics (a, tp, vm) (m # names) = Inr (a', tp', vm')"
    using step run by simp
  have inn': "map_of (an_metrics a') n = Some (entryFor sz n (metrics n) b)"
    if "n \<in> set (m # names) \<and> is_number (metrics n) \<and> benchmarks_lookup n sz = Some b" for n b
  proof (cases "n = m")
    case True
    then have "map_of (an_metrics a') n = map_of (an_metrics a1) n"
      using out fresh by simp
    then show ?thesis
      using True that m1 bm by simp
  next
    case False
    then show ?thesis
      using that inn by simp
  qed
  have out': "map_of (an_metrics a') n = map_of (an_metrics a) n" if "n \<notin> set (m # names)" for n
    using that out m1 by simp
  show ?case
    using whole inn' out' by blast
qed

lemma getBenchmarkAnalysis_entry:
  assumes "n \<in> set [''combinedRatio'', ''roe'', ''lossRatio'']" and "is_number (metrics n)"
  shows "\<exists>a b. getBenchmarkAnalysis ticker metrics pv ts = Inr a \<and>
           benchmarks_lookup n (getCompanySize pv) = Some b \<and>
           map_of (an_metrics a) n = Some (entryFor (getCompanySize pv) n (metrics n) b)"
proof -
  let ?sz = "getCompanySize pv"
  let ?a0 = "\<lparr> an_ticker = ticker, an_companySize = ?sz,
                 an_peerGroup = getPeerGroup ticker, an_metrics = [],
                 an_overallRating = ''average'', an_strengths = [], an_weaknesses = [],
                 an_timestamp = ts \<rparr>"
  have all: "\<forall>m \<in> set [''combinedRatio'', ''roe'', ''lossRatio'']. \<exists>b. benchmarks_lookup m ?sz = Some b"
    using lookup_total by blast
  obtain b where b: "benchmarks_lookup n ?sz = Some b"
    using lookup_total [OF assms(1)] by blast
  have d: "distinct [''combinedRatio'', ''roe'', ''lossRatio'']"
    by simp
  obtain a' tp' vm' where run:
      "forEachMetric ?sz metrics (?a0, 0, 0) [''combinedRatio'', ''roe'', ''lossRatio''] = Inr (a', tp', vm')"
    and e: "map_of (an_metrics a') n = Some (entryFor ?sz n (metrics n) b)"
    using forEachMetric_entries [OF all d, of metrics ?a0 0 0] assms b by blast
  show ?thesis
    using run e b by (simp add: getBenchmarkAnalysis_def Let_def)
qed

lemma classifier_values:
  assumes look: "benchmarks_lookup metric sz = Some b"
  shows "(\<forall>name p. spec_first_band x (spec_canonical b) = Some (name, p) \<longrightarrow>
         ratingOf b (Num x) = name \<and>
         calculateIndustryPercentile metric (Num x) (Some sz) = p) \<and>
      (spec_first_band x (spec_canonical b) = None \<longrightarrow>
         ratingOf b (Num x) = ''average'' \<and>
         (if lowerIsBetter metric then x < b_min (excellent b) \<or> b_max (critical b) < x
          else b_max (excellent b) < x \<or> x < b_min (critical b)) \<and>
         ((if lowerIsBetter metric then x < b_min (excellent b) else b_max (excellent b) < x) \<longrightarrow>
            calculateIndustryPercentile metric (Num x) (Some sz) = 95) \<and>
         ((if lowerIsBetter metric then b_max (critical b) < x else x < b_min (critical b)) \<longrightarrow>
            calculateIndustryPercentile metric (Num x) (Some sz) = 5))"
proof (intro conjI allI impI)
  fix name p
  assume "spec_first_band x (spec_canonical b) = Some (name, p)"
  then obtain rng where f: "find (in_range (Num x)) (entries b) = Some (name, rng)"
    and p: "p = percentile rng"
    by (auto simp: spec_first_band_find spec_canonical_def entries_def)
  show "ratingOf b (Num x) = name"
    using percentile_in_band(2) [OF look f] .
  show "calculateIndustryPercentile metric (Num x) (Some sz) = p"
    using percentile_in_band(1) [OF look f] p by simp
next
  assume "spec_first_band x (spec_canonical b) = None"
  then have f: "find (in_range (Num x)) (entries b) = None"
    by (simp add: spec_first_band_find spec_canonical_def entries_def)
  show "ratingOf b (Num x) = ''average''"
    using f by (simp add: ratingOf_def)
  show "if lowerIsBetter metric then x < b_min (excellent b) \<or> b_max (critical b) < x
        else b_max (excellent b) < x \<or> x < b_min (critical b)"
    using lookup_shape [OF look] outside_ascending [OF _ f] outside_descending [OF _ f]
    by auto
next
  assume "spec_first_band x (spec_canonical b) = None"
    and "if lowerIsBetter metric then x < b_min (excellent b) else b_max (excellent b) < x"
  then show "calculateIndustryPercentile metric (Num x) (Some sz) = 95"
    using percentile_outside [OF look]
    by (simp add: spec_first_band_find spec_canonical_def entries_def split: if_splits)
next
  assume none: "spec_first_band x (spec_canonical b) = None"
    and side: "if lowerIsBetter metric then b_max (critical b) < x else x < b_min (critical b)"
  have f: "find (in_range (Num x)) (entries b) = None"
    using none by (simp add: spec_first_band_find spec_canonical_def entries_def)
  have "\<not> (if lowerIsBetter metric then x < b_min (excellent b) else b_max (excellent b) < x)"
    using lookup_shape [OF look] side unfolding ascending_def descending_def
    by (auto split: if_splits)
  then show "calculateIndustryPercentile metric (Num x) (Some sz) = 5"
    using percentile_outside [OF look f] side by (simp split: if_splits)
qed

text \<open>
  C5. Let \<open>metricName\<close> be one of the analysed metrics (combinedRatio, roe, lossRatio) and
  let the metrics object hold the number \<open>x\<close> under it. Then \<open>getBenchmarkAnalysis\<close>
  returns an analysis whose \<open>metrics[metricName]\<close> entry holds the value \<open>x\<close> and the
  bands \<open>bm\<close> of the table for the metric at the company's size class, and: if the first
  band in canonical order whose closed interval holds \<open>x\<close> is \<open>name\<close> with percentile
  \<open>p\<close>, the stored rating is \<open>name\<close> and the stored percentile is \<open>p\<close>; if no band holds
  \<open>x\<close>, the stored rating stays \<open>'average'\<close>, \<open>x\<close> lies beyond the excellent band on the
  favourable side or beyond the critical band on the unfavourable side, and the stored
  percentile is 95 in the first case and 5 in the second. The same holds of the
  percentile function and of the rating loop on their own, for any metric and size
  class for which the table has bands \<open>b\<close>. At size large (premium volume 20000),
  the analysis of combinedRatio 92 stores excellent with percentile 90, that of 103
  stores the middle band (average) with percentile 50, and that of 150 stores
  percentile 5.
\<close>

theorem C5_classifier:
  "(metricName \<in> set [''combinedRatio'', ''roe'', ''lossRatio''] \<and> metrics metricName = Num x \<longrightarrow>
      (\<exists>a e bm. getBenchmarkAnalysis ticker metrics premiumVolume timestamp = Inr a \<and>
         benchmarks_lookup metricName (getCompanySize premiumVolume) = Some bm \<and>
         map_of (an_metrics a) metricName = Some e \<and>
         ma_value e = Num x \<and> ma_benchmark e = bm \<and>
         (\<forall>name p. spec_first_band x (spec_canonical bm) = Some (name, p) \<longrightarrow>
            ma_rating e = name \<and> ma_percentile e = p) \<and>
         (spec_first_band x (spec_canonical bm) = None \<longrightarrow>
            ma_rating e = ''average'' \<and>
            (if lowerIsBetter metricName
             then x < b_min (excellent bm) \<or> b_max (critical bm) < x
             else b_max (excellent bm) < x \<or> x < b_min (critical bm)) \<and>
            ((if lowerIsBetter metricName then x < b_min (excellent bm)
              else b_max (excellent bm) < x) \<longrightarrow> ma_percentile e = 95) \<and>
            ((if lowerIsBetter metricName then b_max (critical bm) < x
              else x < b_min (critical bm)) \<longrightarrow> ma_percentile e = 5)))) \<and>
   (benchmarks_lookup metric sz = Some b \<longrightarrow>
      (\<forall>name p. spec_first_band x (spec_canonical b) = Some (name, p) \<longrightarrow>
         ratingOf b (Num x) = name \<and>
         calculateIndustryPercentile metric (Num x) (Some sz) = p) \<and>
      (spec_first_band x (spec_canonical b) = None \<longrightarrow>
         (if lowerIsBetter metric then x < b_min (excellent b) \<or> b_max (critical b) < x
          else b_max (excellent b) < x \<or> x < b_min (critical b)) \<and>
         ((if lowerIsBetter metric then x < b_min (excellent b) else b_max (excellent b) < x) \<longrightarrow>
            calculateIndustryPercentile metric (Num x) (Some sz) = 95) \<and>
         ((if lowerIsBetter metric then b_max (critical b) < x else x < b_min (critical b)) \<longrightarrow>
            calculateIndustryPercentile metric (Num x) (Some sz) = 5))) \<and>
   storedRating (getBenchmarkAnalysis ticker (single_metric ''combinedRatio'' 92) (Num 20000) timestamp)
     ''combinedRatio'' = Some (''excellent'', 90) \<and>
   storedRating (getBenchmarkAnalysis ticker (single_metric ''combinedRatio'' 103) (Num 20000) timestamp)
     ''combinedRatio'' = Some (''average'', 50) \<and>
   storedRating (getBenchmarkAnalysis ticker (single_metric ''combinedRatio'' 150) (Num 20000) timestamp)
     ''combinedRatio'' = Some (''average'', 5) \<and>
   ratingOf combinedRatio_large (Num 92) = ''excellent'' \<and>
   calculateIndustryPercentile ''combinedRatio'' (Num 92) (Some ''large'') = 90 \<and>
   ratingOf combinedRatio_large (Num 103) = ''average'' \<and>
   calculateIndustryPercentile ''combinedRatio'' (Num 103) (Some ''large'') = 50 \<and>
   calculateIndustryPercentile ''combinedRatio'' (Num 150) (Some ''large'') = 5"
proof -
  have stored: "\<exists>a e bm. getBenchmarkAnalysis ticker metrics premiumVolume timestamp = Inr a \<and>
         benchmarks_lookup metricName (getCompanySize premiumVolume) = Some bm \<and>
         map_of (an_metrics a) metricName = Some e \<and>
         ma_value e = Num x \<and> ma_benchmark e = bm \<and>
         (\<forall>name p. spec_first_band x (spec_canonical bm) = Some (name, p) \<longrightarrow>
            ma_rating e = name \<and> ma_percentile e = p) \<and>
         (spec_first_band x (spec_canonical bm) = None \<longrightarrow>
            ma_rating e = ''average'' \<and>
            (if lowerIsBetter metricName
             then x < b_min (excellent bm) \<or> b_max (critical bm) < x
             else b_max (excellent bm) < x \<or> x < b_min (critical bm)) \<and>
            ((if lowerIsBetter metricName then x < b_min (excellent bm)
              else b_max (excellent bm) < x) \<longrightarrow> ma_percentile e = 95) \<and>
            ((if lowerIsBetter metricName then b_max (critical bm) < x
              else x < b_min (critical bm)) \<longrightarrow> ma_percentile e = 5))"
    if name: "metricName \<in> set [''combinedRatio'', ''roe'', ''lossRatio'']"
      and val: "metrics metricName = Num x"
  proof -
    have num: "is_number (metrics metricName)"
      using val by simp
    obtain a bm where run: "getBenchmarkAnalysis ticker metrics premiumVolume timestamp = Inr a"
      and look: "benchmarks_lookup metricName (getCompanySize premiumVolume) = Some bm"
      and e: "map_of (an_metrics a) metricName =
                Some (entryFor (getCompanySize premiumVolume) metricName (metrics metricName) bm)"
      using getBenchmarkAnalysis_entry [where n = metricName and metrics = metrics
          and ticker = ticker and pv = premiumVolume and ts = timestamp] name num by blast
    define e where "e = entryFor (getCompanySize premiumVolume) metricName (Num x) bm"
    have stored: "map_of (an_metrics a) metricName = Some e"
      using e val by (simp add: e_def)
    have fields: "ma_value e = Num x" "ma_benchmark e = bm"
      and rating: "ma_rating e = ratingOf bm (Num x)"
      and pct: "ma_percentile e =
         calculateIndustryPercentile metricName (Num x) (Some (getCompanySize premiumVolume))"
      by (simp_all add: e_def entryFor_def)
    have both: "(\<forall>name p. spec_first_band x (spec_canonical bm) = Some (name, p) \<longrightarrow>
            ma_rating e = name \<and> ma_percentile e = p) \<and>
         (spec_first_band x (spec_canonical bm) = None \<longrightarrow>
            ma_rating e = ''average'' \<and>
            (if lowerIsBetter metricName
             then x < b_min (excellent bm) \<or> b_max (critical bm) < x
             else b_max (excellent bm) < x \<or> x < b_min (critical bm)) \<and>
            ((if lowerIsBetter metricName then x < b_min (excellent bm)
              else b_max (excellent bm) < x) \<longrightarrow> ma_percentile e = 95) \<and>
            ((if lowerIsBetter metricName then b_max (critical bm) < x
              else x < b_min (critical bm)) \<longrightarrow> ma_percentile e = 5))"
      unfolding rating pct by (rule classifier_values [OF look])
    note inside = both [THEN conjunct1] and outside = both [THEN conjunct2]
    show ?thesis
      by (rule exI [of _ a], rule exI [of _ e], rule exI [of _ bm])
        (intro conjI; fact run look stored fields inside outside)
  qed
  have general: "(\<forall>name p. spec_first_band x (spec_canonical b) = Some (name, p) \<longrightarrow>
         ratingOf b (Num x) = name \<and>
         calculateIndustryPercentile metric (Num x) (Some sz) = p) \<and>
      (spec_first_band x (spec_canonical b) = None \<longrightarrow>
         (if lowerIsBetter metric then x < b_min (excellent b) \<or> b_max (critical b) < x
          else b_max (excellent b) < x \<or> x < b_min (critical b)) \<and>
         ((if lowerIsBetter metric then x < b_min (excellent b) else b_max (excellent b) < x) \<longrightarrow>
            calculateIndustryPercentile metric (Num x) (Some sz) = 95) \<and>
         ((if lowerIsBetter metric then b_max (critical b) < x else x < b_min (critical b)) \<longrightarrow>
            calculateIndustryPercentile metric (Num x) (Some sz) = 5))"
    if look: "benchmarks_lookup metric sz = Some b"
    using classifier_values [OF look, of x] by blast
  have analysed:
    "storedRating (getBenchmarkAnalysis ticker (single_metric ''combinedRatio'' 92) (Num 20000) timestamp)
       ''combinedRatio'' = Some (''excellent'', 90)"
    "storedRating (getBenchmarkAnalysis ticker (single_metric ''combinedRatio'' 103) (Num 20000) timestamp)
       ''combinedRatio'' = Some (''average'', 50)"
    "storedRating (getBenchmarkAnalysis ticker (single_metric ''combinedRatio'' 150) (Num 20000) timestamp)
       ''combinedRatio'' = Some (''average'', 5)"
    by (simp_all add: storedRating_def getBenchmarkAnalysis_def single_metric_def analyzeMetric_def
        getCompanySize_def Let_def calculateIndustryPercentile_def benchmarks_lookup_def
        INDUSTRY_BENCHMARKS_2024_def ratingOf_def entries_def in_range_def
        combinedRatio_large_def dflt_def)
  have examples: "ratingOf combinedRatio_large (Num 92) = ''excellent''"
    "calculateIndustryPercentile ''combinedRatio'' (Num 92) (Some ''large'') = 90"
    "ratingOf combinedRatio_large (Num 103) = ''average''"
    "calculateIndustryPercentile ''combinedRatio'' (Num 103) (Some ''large'') = 50"
    "calculateIndustryPercentile ''combinedRatio'' (Num 150) (Some ''large'') = 5"
    by code_simp+
  show ?thesis
    using stored general analysed examples by blast
qed

theorem C5_classifier_witness:
  "(\<exists>a e. getBenchmarkAnalysis ''PGR'' (single_metric ''roe'' 14) (Num 5000) ''2024-11-05'' = Inr a \<and>
      map_of (an_metrics a) ''roe'' = Some e \<and> ma_value e = Num 14 \<and>
      ma_benchmark e = roe_medium \<and> ma_rating e = ''excellent'' \<and> ma_percentile e = 90) \<and>
   (\<exists>a e. getBenchmarkAnalysis ''PGR'' (single_metric ''roe'' 30) (Num 5000) ''2024-11-05'' = Inr a \<and>
      map_of (an_metrics a) ''roe'' = Some e \<and> ma_rating e = ''average'' \<and> ma_percentile e = 95) \<and>
   (\<exists>a e. getBenchmarkAnalysis ''PGR'' (single_metric ''roe'' (- 7)) (Num 5000) ''2024-11-05'' = Inr a \<and>
      map_of (an_metrics a) ''roe'' = Some e \<and> ma_rating e = ''average'' \<and> ma_percentile e = 5) \<and>
   benchmarks_lookup ''roe'' ''medium'' = Some roe_medium \<and>
   spec_first_band 14 (spec_canonical roe_medium) = Some (''excellent'', 90) \<and>
   ratingOf roe_medium (Num 14) = ''excellent'' \<and>
   calculateIndustryPercentile ''roe'' (Num 14) (Some ''medium'') = 90 \<and>
   spec_first_band 30 (spec_canonical roe_medium) = None \<and>
   \<not> lowerIsBetter ''roe'' \<and> b_max (excellent roe_medium) < 30 \<and>
   calculateIndustryPercentile ''roe'' (Num 30) (Some ''medium'') = 95 \<and>
   spec_first_band (- 7) (spec_canonical roe_medium) = None \<and>
   - 7 < b_min (critical roe_medium) \<and>
   calculateIndustryPercentile ''roe'' (Num (- 7)) (Some ''medium'') = 5"
proof -
  have sz: "getCompanySize (Num 5000) = ''medium''"
    by (simp add: getCompanySize_def)
  have look: "benchmarks_lookup ''roe'' ''medium'' = Some roe_medium"
    by code_simp
  have b14: "spec_first_band 14 (spec_canonical roe_medium) = Some (''excellent'', 90)"
    by code_simp
  have b30: "spec_first_band 30 (spec_canonical roe_medium) = None"
    and b7: "spec_first_band (- 7) (spec_canonical roe_medium) = None"
    by code_simp+
  have side: "\<not> lowerIsBetter ''roe''" "b_max (excellent roe_medium) < 30"
    "- 7 < b_min (critical roe_medium)"
    by code_simp+
  have name: "''roe'' \<in> set [''combinedRatio'', ''roe'', ''lossRatio'']"
    by simp
  have val: "single_metric ''roe'' y ''roe'' = Num y" for y
    by (simp add: single_metric_def)
  note inst = C5_classifier [where metricName = "''roe''" and metric = "''roe''"
      and sz = "''medium''" and b = roe_medium and ticker = "''PGR''"
      and premiumVolume = "Num 5000" and timestamp = "''2024-11-05''"]
  have s14: "\<exists>a e. getBenchmarkAnalysis ''PGR'' (single_metric ''roe'' 14) (Num 5000) ''2024-11-05'' = Inr a \<and>
      map_of (an_metrics a) ''roe'' = Some e \<and> ma_value e = Num 14 \<and>
      ma_benchmark e = roe_medium \<and> ma_rating e = ''excellent'' \<and> ma_percentile e = 90"
    using inst [where x = 14 and metrics = "single_metric ''roe'' 14"] name val [of 14]
    unfolding sz look using b14 by auto
  have s30: "\<exists>a e. getBenchmarkAnalysis ''PGR'' (single_metric ''roe'' 30) (Num 5000) ''2024-11-05'' = Inr a \<and>
      map_of (an_metrics a) ''roe'' = Some e \<and> ma_rating e = ''average'' \<and> ma_percentile e = 95"
    using inst [where x = 30 and metrics = "single_metric ''roe'' 30"] name val [of 30]
    unfolding sz look using b30 side by auto
  have s7: "\<exists>a e. getBenchmarkAnalysis ''PGR'' (single_metric ''roe'' (- 7)) (Num 5000) ''2024-11-05'' = Inr a \<and>
      map_of (an_metrics a) ''roe'' = Some e \<and> ma_rating e = ''average'' \<and> ma_percentile e = 5"
    using inst [where x = "- 7" and metrics = "single_metric ''roe'' (- 7)"] name val [of "- 7"]
    unfolding sz look using b7 side by auto
  have v14: "ratingOf roe_medium (Num 14) = ''excellent'' \<and>
      calculateIndustryPercentile ''roe'' (Num 14) (Some ''medium'') = 90"
    using inst [where x = 14 and metrics = "single_metric ''roe'' 14"] look b14 by blast
  have v30: "calculateIndustryPercentile ''roe'' (Num 30) (Some ''medium'') = 95"
    using inst [where x = 30 and metrics = "single_metric ''roe'' 30"] look b30 side by auto
  have v7: "calculateIndustryPercentile ''roe'' (Num (- 7)) (Some ''medium'') = 5"
    using inst [where x = "- 7" and metrics = "single_metric ''roe'' (- 7)"] look b7 side by auto
  show ?thesis
    using s14 s30 s7 look b14 b30 b7 side v14 v30 v7 by (intro conjI) (assumption | simp)+
qed

text \<open>
  C9 (as stated, refuted). A premium volume of 0 is numeric, yet the guard
  \<open>!premiumVolume\<close> sends it to \<open>'medium'\<close>, not to \<open>'small'\<close>.
\<close>

theorem C9_counterexample:
  "getCompanySize (Num 0) = ''medium'' \<and> getCompanySize (Num 0) \<noteq> ''small''"
  by (simp add: getCompanySize_def)

text \<open>
  C9 (amended). The size is \<open>'large'\<close> for a volume of at least 10000, \<open>'medium'\<close> for a
  volume of at least 1000 and below 10000, \<open>'small'\<close> for every other numeric volume
  except 0 (negative volumes included), and \<open>'medium'\<close> for 0, for NaN and for every
  input that is not a number.
\<close>

theorem C9_getCompanySize:
  "(10000 \<le> x \<longrightarrow> getCompanySize (Num x) = ''large'') \<and>
   (1000 \<le> x \<and> x < 10000 \<longrightarrow> getCompanySize (Num x) = ''medium'') \<and>
   (x < 1000 \<and> x \<noteq> 0 \<longrightarrow> getCompanySize (Num x) = ''small'') \<and>
   getCompanySize (Num 0) = ''medium'' \<and>
   getCompanySize NaN = ''medium'' \<and>
   (\<not> is_number v \<longrightarrow> getCompanySize v = ''medium'')"
  by (simp add: getCompanySize_def)

theorem C9_getCompanySize_witness:
  "getCompanySize (Num 25000) = ''large'' \<and>
   getCompanySize (Num 4000) = ''medium'' \<and>
   getCompanySize (Num 999) = ''small'' \<and>
   getCompanySize (Num (- 3)) = ''small'' \<and>
   getCompanySize (Str ''10000'') = ''medium''"
  using C9_getCompanySize [of 25000 Undefined] C9_getCompanySize [of 4000 Undefined]
    C9_getCompanySize [of 999 Undefined] C9_getCompanySize [of "- 3" "Str ''10000''"]
  by simp


section \<open>Validation Engine (dataValidationService.js)\<close>

text \<open>One range \<open>{ min, max, description }\<close> of the validation benchmarks.\<close>

record range =
  r_min :: rat
  r_max :: rat
  r_description :: string

text \<open>The ranges of one metric under their five keys.\<close>

record ranges =
  r_excellent :: range
  r_good :: range
  r_fair :: range
  r_poor :: range
  r_critical :: range

definition combinedRatio_benchmarks :: ranges where
  "combinedRatio_benchmarks =
     \<lparr> r_excellent = \<lparr> r_min = 85, r_max = 95, r_description = ''Top quartile performance'' \<rparr>,
       r_good = \<lparr> r_min = 95, r_max = 100, r_description = ''Above average performance'' \<rparr>,
       r_fair = \<lparr> r_min = 100, r_max = 105, r_description = ''Industry average'' \<rparr>,
       r_poor = \<lparr> r_min = 105, r_max = 115, r_description = ''Below average performance'' \<rparr>,
       r_critical = \<lparr> r_min = 115, r_max = 130, r_description = ''Poor underwriting performance'' \<rparr> \<rparr>"

definition roe_benchmarks :: ranges where
  "roe_benchmarks =
     \<lparr> r_excellent = \<lparr> r_min = 15, r_max = 25, r_description = ''Exceptional returns'' \<rparr>,
       r_good = \<lparr> r_min = 10, r_max = 15, r_description = ''Strong returns'' \<rparr>,
       r_fair = \<lparr> r_min = 7, r_max = 10, r_description = ''Adequate returns'' \<rparr>,
       r_poor = \<lparr> r_min = 3, r_max = 7, r_description = ''Weak returns'' \<rparr>,
       r_critical = \<lparr> r_min = - 5, r_max = 3, r_description = ''Poor/negative returns'' \<rparr> \<rparr>"

definition lossRatio_benchmarks :: ranges where
  "lossRatio_benchmarks =
     \<lparr> r_excellent = \<lparr> r_min = 55, r_max = 65, r_description = ''Superior underwriting'' \<rparr>,
       r_good = \<lparr> r_min = 65, r_max = 75, r_description = ''Good underwriting'' \<rparr>,
       r_fair = \<lparr> r_min = 75, r_max = 85, r_description = ''Average underwriting'' \<rparr>,
       r_poor = \<lparr> r_min = 85, r_max = 95, r_description = ''Weak underwriting'' \<rparr>,
       r_critical = \<lparr> r_min = 95, r_max = 110, r_description = ''Poor underwriting'' \<rparr> \<rparr>"

definition expenseRatio_benchmarks :: ranges where
  "expenseRatio_benchmarks =
     \<lparr> r_excellent = \<lparr> r_min = 20, r_max = 25, r_description = ''Highly efficient'' \<rparr>,
       r_good = \<lparr> r_min = 25, r_max = 30, r_description = ''Efficient operations'' \<rparr>,
       r_fair = \<lparr> r_min = 30, r_max = 35, r_description = ''Average efficiency'' \<rparr>,
       r_poor = \<lparr> r_min = 35, r_max = 40, r_description = ''Inefficient operations'' \<rparr>,
       r_critical = \<lparr> r_min = 40, r_max = 50, r_description = ''Very inefficient'' \<rparr> \<rparr>"

definition INDUSTRY_BENCHMARKS :: "(string \<times> ranges) list" where
  "INDUSTRY_BENCHMARKS =
     [(''combinedRatio'', combinedRatio_benchmarks), (''roe'', roe_benchmarks),
      (''lossRatio'', lossRatio_benchmarks), (''expenseRatio'', expenseRatio_benchmarks)]"

text \<open>\<open>Object.entries(benchmarks)\<close> of the validation benchmarks.\<close>

definition range_entries :: "ranges \<Rightarrow> (string \<times> range) list" where
  "range_entries b = [(''excellent'', r_excellent b), (''good'', r_good b), (''fair'', r_fair b),
     (''poor'', r_poor b), (''critical'', r_critical b)]"

definition calculatePercentile :: "string \<Rightarrow> jsval \<Rightarrow> nat" where
  "calculatePercentile metricName v =
     (case map_of INDUSTRY_BENCHMARKS metricName of
        None \<Rightarrow> 50
      | Some benchmarks \<Rightarrow>
          if num_le v (r_max (r_excellent benchmarks)) then 90
          else if num_le v (r_max (r_good benchmarks)) then 75
          else if num_le v (r_max (r_fair benchmarks)) then 50
          else if num_le v (r_max (r_poor benchmarks)) then 25
          else 10)"

text \<open>The result of \<open>validateMetric\<close>; an absent \<open>percentile\<close> is \<open>None\<close>.\<close>

record validation =
  v_rating :: string
  v_message :: string
  v_benchmark :: "range option"
  v_percentile :: "nat option"

definition validateMetric :: "string \<Rightarrow> jsval \<Rightarrow> validation" where
  "validateMetric metricName v =
     (case map_of INDUSTRY_BENCHMARKS metricName of
        None \<Rightarrow>
          \<lparr> v_rating = ''unknown'', v_message = ''Unable to validate metric'',
            v_benchmark = None, v_percentile = None \<rparr>
      | Some benchmarks \<Rightarrow>
          if \<not> is_number v then
            \<lparr> v_rating = ''unknown'', v_message = ''Unable to validate metric'',
              v_benchmark = None, v_percentile = None \<rparr>
          else
            case find (\<lambda>e. num_ge v (r_min (snd e)) \<and> num_le v (r_max (snd e)))
                   (range_entries benchmarks) of
              Some (rating, rng) \<Rightarrow>
                \<lparr> v_rating = rating, v_message = r_description rng,
                  v_benchmark = Some rng,
                  v_percentile = Some (calculatePercentile metricName v) \<rparr>
            | None \<Rightarrow>
                \<lparr> v_rating = ''outlier'', v_message = ''Value outside typical industry range'',
                  v_benchmark = None, v_percentile = None \<rparr>)"

text \<open>\<open>scoreMap[validation.rating] || 0\<close>\<close>

definition scoreMap :: "string \<Rightarrow> nat" where
  "scoreMap rating =
     (case map_of [(''excellent'', 100), (''good'', 80), (''fair'', 60), (''poor'', 40),
                   (''critical'', 20), (''outlier'', 10)] rating of
        None \<Rightarrow> 0
      | Some n \<Rightarrow> n)"

text \<open>
  The outcome of an awaited promise: it resolves to a value, or it rejects with an error
  whose \<open>message\<close> is the string.
\<close>

datatype 'a awaited = Resolves 'a | Rejects string

text \<open>
  What \<open>validateCompanyData\<close> reads of the object of \<open>fetchSECFilings\<close>: \<open>error\<close>,
  \<open>name\<close>, \<open>cik\<close> and \<open>filings.count\<close>, each possibly absent.
\<close>

record secData =
  sec_error :: "string option"
  sec_name :: "string option"
  sec_cik :: "string option"
  sec_filings_count :: "nat option"

text \<open>One indicator \<open>{ value, date, historical }\<close> of \<open>fetchEconomicIndicators\<close>.\<close>

record indicator =
  ind_value :: jsval
  ind_date :: "string option"
  ind_historical :: "(string \<times> string) list option"

text \<open>
  What is modelled of the object of \<open>fetchEconomicIndicators\<close>: \<open>indicators\<close> and
  \<open>error\<close>, each possibly absent.
\<close>

record economicData =
  eco_indicators :: "(string \<times> indicator) list option"
  eco_error :: "string option"










datatype sourceData =
  SecSource "string option" "string option" nat
| FredSource "(string \<times> indicator) list"

record source =
  src_name :: string
  src_status :: string
  src_data :: sourceData

text \<open>An entry \<open>{ metric, value, ...validation }\<close> of \<open>validations\<close>.\<close>

record validationEntry =
  ve_metric :: string
  ve_value :: jsval
  ve_validation :: validation

text \<open>An entry \<open>{ type, message }\<close> of \<open>warnings\<close> or of \<open>recommendations\<close>.\<close>

record notice =
  n_type :: string
  n_message :: string

record report =
  rep_ticker :: string
  rep_timestamp :: string
  overallScore :: int
  dataQuality :: string
  validations :: "validationEntry list"
  warnings :: "notice list"
  recommendations :: "notice list"
  sources :: "source list"

text \<open>
  The argument \<open>financialData\<close>: \<open>null\<close>, or \<open>undefined\<close>, or a value whose
  \<open>currentMetrics\<close> is falsy (\<open>None\<close>) or an object, read as the function from property
  names to values.
\<close>

datatype financialData =
  NullData | UndefinedData | WithMetrics "(string \<Rightarrow> jsval) option"

definition coreMetrics :: "string list" where
  "coreMetrics = [''combinedRatio'', ''roe'', ''lossRatio'', ''expenseRatio'']"

text \<open>
  The body of the loop over \<open>coreMetrics\<close>; the state is the report with
  \<open>validMetricsCount\<close> and \<open>totalScore\<close>.
\<close>

definition scoreMetric ::
  "(string \<Rightarrow> jsval) \<Rightarrow> report \<times> nat \<times> nat \<Rightarrow> string \<Rightarrow> report \<times> nat \<times> nat" where
  "scoreMetric metrics st metricName =
     (case st of (rep, validMetricsCount, totalScore) \<Rightarrow>
        let v = metrics metricName in
        if is_number v then
          let validation = validateMetric metricName v
          in (rep \<lparr> validations := validations rep @
                  [\<lparr> ve_metric = metricName, ve_value = v, ve_validation = validation \<rparr>] \<rparr>,
              validMetricsCount + 1,
              totalScore + scoreMap (v_rating validation))
        else
          (rep \<lparr> warnings := warnings rep @
               [\<lparr> n_type = ''missing_data'',
                  n_message = ''Missing or invalid '' @ metricName @ '' data'' \<rparr>] \<rparr>,
           validMetricsCount, totalScore))"

text \<open>
  Step 2: the lookup of the SEC filings inside its own \<open>try\<close>. The state is the report
  with \<open>totalScore\<close>.
\<close>

definition secStep :: "secData awaited \<Rightarrow> report \<times> nat \<Rightarrow> report \<times> nat" where
  "secStep sec st =
     (case st of (rep, totalScore) \<Rightarrow>
        case sec of
          Rejects msg \<Rightarrow>
            (rep \<lparr> warnings := warnings rep @
                 [\<lparr> n_type = ''sec_error'', n_message = ''SEC API error: '' @ msg \<rparr>] \<rparr>,
             totalScore)
        | Resolves secData \<Rightarrow>
            if sec_error secData = None \<or> sec_error secData = Some [] then
              (rep \<lparr> sources := sources rep @
                   [\<lparr> src_name = ''SEC EDGAR'', src_status = ''verified'',
                      src_data = SecSource (sec_name secData) (sec_cik secData)
                        (dflt 0 (sec_filings_count secData)) \<rparr>] \<rparr>,
               totalScore + 10)
            else
              (rep \<lparr> warnings := warnings rep @
                   [\<lparr> n_type = ''sec_validation'',
                      n_message = ''SEC verification failed: '' @ dflt [] (sec_error secData) \<rparr>] \<rparr>,
               totalScore))"

text \<open>\<open>economicData.indicators.X?.value\<close>\<close>

definition indicatorValue :: "(string \<times> indicator) list \<Rightarrow> string \<Rightarrow> jsval" where
  "indicatorValue inds name =
     (case map_of inds name of None \<Rightarrow> Undefined | Some i \<Rightarrow> ind_value i)"

text \<open>
  \<open>x && x > limit\<close> on the value of an indicator, which is a number: the number where
  the test holds.
\<close>

definition above :: "jsval \<Rightarrow> rat \<Rightarrow> rat option" where
  "above v limit = (case v of Num x \<Rightarrow> (if x \<noteq> 0 \<and> x > limit then Some x else None) | _ \<Rightarrow> None)"

text \<open>
  Step 3: the economic context inside its own \<open>try\<close>. \<open>numToString\<close> is the conversion
  of a number to a string that the template literals apply.
\<close>

definition econStep :: "(rat \<Rightarrow> string) \<Rightarrow> economicData awaited \<Rightarrow> report \<Rightarrow> report" where
  "econStep numToString econ rep =
     (case econ of
        Rejects msg \<Rightarrow>
          rep \<lparr> warnings := warnings rep @
            [\<lparr> n_type = ''economic_data'',
               n_message = ''Economic data unavailable: '' @ msg \<rparr>] \<rparr>
      | Resolves economicData \<Rightarrow>
          (case eco_indicators economicData of
             None \<Rightarrow> rep
           | Some inds \<Rightarrow>
               let rep1 = rep \<lparr> sources := sources rep @
                     [\<lparr> src_name = ''FRED Economic Data'', src_status = ''available'',
                        src_data = FredSource inds \<rparr>] \<rparr>;
                   rep2 =
                     (case above (indicatorValue inds ''UNRATE'') 6 of
                        Some unemployment \<Rightarrow>
                          rep1 \<lparr> recommendations := recommendations rep1 @
                            [\<lparr> n_type = ''economic_context'',
                               n_message = ''High unemployment ('' @ numToString unemployment @
                                 ''%) may impact insurance demand and claims'' \<rparr>] \<rparr>
                      | None \<Rightarrow> rep1)
               in (case above (indicatorValue inds ''FEDFUNDS'') 4 of
                     Some fedRate \<Rightarrow>
                       rep2 \<lparr> recommendations := recommendations rep2 @
                         [\<lparr> n_type = ''economic_context'',
                            n_message = ''High interest rates ('' @ numToString fedRate @
                              ''%) may benefit investment income'' \<rparr>] \<rparr>
                   | None \<Rightarrow> rep2)))"

text \<open>Steps 4 and 5: the overall score, the quality rating and the last recommendations.\<close>

definition finishReport :: "report \<Rightarrow> nat \<Rightarrow> nat \<Rightarrow> report" where
  "finishReport rep validMetricsCount totalScore =
     (let rep1 =
            (if validMetricsCount > 0
             then rep \<lparr> overallScore :=
                    Math_round (of_nat totalScore / of_nat validMetricsCount) \<rparr>
             else rep);
          rep2 = rep1 \<lparr> dataQuality :=
            (if overallScore rep1 \<ge> 85 then ''excellent''
             else if overallScore rep1 \<ge> 70 then ''good''
             else if overallScore rep1 \<ge> 50 then ''fair''
             else ''poor'') \<rparr>;
          rep3 =
            (if length (warnings rep2) > 2
             then rep2 \<lparr> recommendations := recommendations rep2 @
                    [\<lparr> n_type = ''data_quality'',
                       n_message = ''Multiple data quality issues detected. Consider using alternative data sources.'' \<rparr>] \<rparr>
             else rep2)
      in if validMetricsCount < length coreMetrics
         then rep3 \<lparr> recommendations := recommendations rep3 @
                [\<lparr> n_type = ''completeness'',
                   n_message = ''Some key metrics are missing. Data may be incomplete.'' \<rparr>] \<rparr>
         else rep3)"

text \<open>
  The message of the TypeError that reading \<open>currentMetrics\<close> of \<open>null\<close> or of
  \<open>undefined\<close> raises (the wording of V8).
\<close>

definition nullReadMessage :: "string \<Rightarrow> string" where
  "nullReadMessage what =
     ''Cannot read properties of '' @ what @ '' (reading 'currentMetrics')''"

text \<open>
  The \<open>try\<close> block of \<open>validateCompanyData\<close>. \<open>Inr\<close> is the report it returns; \<open>Inl\<close>
  is an exception raised inside it, with its message and the report as it stands then.
\<close>

definition tryBlock ::
  "string \<Rightarrow> financialData \<Rightarrow> secData awaited \<Rightarrow> economicData awaited \<Rightarrow>
   (rat \<Rightarrow> string) \<Rightarrow> report \<Rightarrow> string \<times> report + report" where
  "tryBlock ticker financialData sec econ numToString validationReport =
     (case financialData of
        NullData \<Rightarrow> Inl (nullReadMessage ''null'', validationReport)
      | UndefinedData \<Rightarrow> Inl (nullReadMessage ''undefined'', validationReport)
      | WithMetrics None \<Rightarrow>
          Inl (''No financial metrics available for validation'', validationReport)
      | WithMetrics (Some metrics) \<Rightarrow>
          (case foldl (scoreMetric metrics) (validationReport, 0, 0) coreMetrics of
             (rep1, validMetricsCount, totalScore1) \<Rightarrow>
               (case secStep sec (rep1, totalScore1) of
                  (rep2, totalScore) \<Rightarrow>
                    Inr (finishReport (econStep numToString econ rep2)
                           validMetricsCount totalScore))))"

text \<open>
  \<open>validateCompanyData\<close>: the report object, the \<open>try\<close> block and its \<open>catch\<close>.
  \<open>timestamp\<close> is \<open>new Date().toISOString()\<close>. \<open>Inr\<close> is the returned report and \<open>Inl\<close>
  an exception that leaves the function.
\<close>

definition validateCompanyData ::
  "string \<Rightarrow> financialData \<Rightarrow> secData awaited \<Rightarrow> economicData awaited \<Rightarrow>
   (rat \<Rightarrow> string) \<Rightarrow> string \<Rightarrow> string + report" where
  "validateCompanyData ticker financialData sec econ numToString timestamp =
     (let validationReport =
            \<lparr> rep_ticker = ticker, rep_timestamp = timestamp, overallScore = 0,
              dataQuality = ''unknown'', validations = [], warnings = [],
              recommendations = [], sources = [] \<rparr>
      in case tryBlock ticker financialData sec econ numToString validationReport of
           Inr rep \<Rightarrow> Inr rep
         | Inl (message, rep) \<Rightarrow>
             Inr (rep \<lparr> warnings := warnings rep @
                    [\<lparr> n_type = ''validation_error'',
                       n_message = ''Validation process failed: '' @ message \<rparr>],
                    dataQuality := ''error'' \<rparr>))"


section \<open>Properties of the Validation Engine\<close>

text \<open>
  Metrics that all rate excellent (and are consistent: 65 + 25 = 90), and a successful
  lookup of the SEC filings.
\<close>

definition excellent_metrics :: "string \<Rightarrow> jsval" where
  "excellent_metrics name =
     (if name = ''combinedRatio'' then Num 90
      else if name = ''roe'' then Num 20
      else if name = ''lossRatio'' then Num 65
      else if name = ''expenseRatio'' then Num 25
      else Undefined)"

definition sec_verified :: secData where
  "sec_verified = \<lparr> sec_error = None, sec_name = Some ''TRAVELERS COMPANIES, INC.'',
     sec_cik = Some ''0000086312'', sec_filings_count = None \<rparr>"

text \<open>
  C2 (the code at the failing input). Four excellent metrics give 400 points, the
  verified SEC lookup adds 10, and the average over the four metrics is 102.5: the report
  has \<open>overallScore = 103\<close>, above 100.
\<close>

theorem C2_score_above_100:
  "case_sum (\<lambda>e. None) (\<lambda>rep. Some (overallScore rep, dataQuality rep))
     (validateCompanyData ''TRV'' (WithMetrics (Some excellent_metrics)) (Resolves sec_verified)
        (Rejects ''Failed to fetch'') (\<lambda>x. []) ''2024-01-01T00:00:00.000Z'') =
   Some (103, ''excellent'')"
  by code_simp



















text \<open>
  C10. Every roe above 25 lies in none of the roe ranges: \<open>validateMetric\<close> rates it
  \<open>'outlier'\<close>, worth 10 points, and \<open>calculatePercentile\<close>, which compares with the
  \<open>max\<close> of each range from excellent to poor, returns 10. A roe in the fair range
  (from 7 and below 10) is rated \<open>'fair'\<close>, worth 60 points, with percentile 90.
\<close>

theorem C10_high_roe_outlier:
  "(25 < x \<longrightarrow>
      v_rating (validateMetric ''roe'' (Num x)) = ''outlier'' \<and>
      scoreMap (v_rating (validateMetric ''roe'' (Num x))) = 10 \<and>
      calculatePercentile ''roe'' (Num x) = 10) \<and>
   (7 \<le> y \<and> y < 10 \<longrightarrow>
      v_rating (validateMetric ''roe'' (Num y)) = ''fair'' \<and>
      scoreMap (v_rating (validateMetric ''roe'' (Num y))) = 60 \<and>
      v_percentile (validateMetric ''roe'' (Num y)) = Some 90)"
  by (simp add: validateMetric_def calculatePercentile_def scoreMap_def INDUSTRY_BENCHMARKS_def
      roe_benchmarks_def range_entries_def)

theorem C10_high_roe_outlier_witness:
  "v_rating (validateMetric ''roe'' (Num 30)) = ''outlier'' \<and>
   scoreMap (v_rating (validateMetric ''roe'' (Num 30))) = 10 \<and>
   calculatePercentile ''roe'' (Num 30) = 10 \<and>
   v_rating (validateMetric ''roe'' (Num 8)) = ''fair'' \<and>
   scoreMap (v_rating (validateMetric ''roe'' (Num 8))) = 60 \<and>
   v_percentile (validateMetric ''roe'' (Num 8)) = Some 90"
proof -
  have "(25::rat) < 30" and "(7::rat) \<le> 8 \<and> (8::rat) < 10"
    by simp_all
  then show ?thesis
    using C10_high_roe_outlier [of 30 8] by blast
qed


section \<open>Cache of the enhanced data service (enhancedDataService.js, cacheUtils)\<close>

text \<open>
  The cache is a \<open>Map\<close> from keys to items \<open>{ value, expiry }\<close>: an association list in
  insertion order, whose keys are distinct. Times are milliseconds, as \<open>Date.now()\<close>
  gives them. A result \<open>None\<close> of \<open>get\<close> is \<open>null\<close>.
\<close>

record 'v cacheItem =
  ci_value :: 'v
  ci_expiry :: int

type_synonym 'v cache = "(string \<times> 'v cacheItem) list"

definition CACHE_DURATION :: int where
  "CACHE_DURATION = 60 * 60 * 1000"

text \<open>
  \<open>cacheUtils.set(key, value, ttl = CACHE_DURATION)\<close>. \<open>now\<close> is the clock when the
  expiry is computed and \<open>now'\<close> the clock read again for the cleanup of a cache of more
  than 100 entries.
\<close>

definition cacheUtils_set ::
  "string \<Rightarrow> 'v \<Rightarrow> int option \<Rightarrow> int \<Rightarrow> int \<Rightarrow> 'v cache \<Rightarrow> 'v cache" where
  "cacheUtils_set key v ttl now now' cache =
     (let expiry = now + dflt CACHE_DURATION ttl;
          cache1 = AList.update key \<lparr> ci_value = v, ci_expiry = expiry \<rparr> cache
      in if length cache1 > 100
         then filter (\<lambda>e. \<not> ci_expiry (snd e) < now') cache1
         else cache1)"

text \<open>\<open>cacheUtils.get(key)\<close> at the time \<open>now\<close>: the result and the cache afterwards.\<close>

definition cacheUtils_get :: "string \<Rightarrow> int \<Rightarrow> 'v cache \<Rightarrow> 'v option \<times> 'v cache" where
  "cacheUtils_get key now cache =
     (case map_of cache key of
        None \<Rightarrow> (None, cache)
      | Some item \<Rightarrow>
          if now > ci_expiry item then (None, AList.delete key cache)
          else (Some (ci_value item), cache))"

definition cacheUtils_clear :: "'v cache \<Rightarrow> 'v cache" where
  "cacheUtils_clear cache = []"


section \<open>Properties of the cache\<close>

lemma map_of_filter_distinct:
  "distinct (map fst al) \<Longrightarrow>
   map_of (filter P al) k =
     (case map_of al k of None \<Rightarrow> None | Some v \<Rightarrow> if P (k, v) then Some v else None)"
proof (induction al)
  case Nil
  then show ?case by simp
next
  case (Cons a al)
  then show ?case
    by (cases a) (auto split: option.splits simp: map_of_eq_None_iff image_iff dest: map_of_SomeD)
qed

lemma cacheUtils_set_distinct:
  "distinct (map fst cache) \<Longrightarrow> distinct (map fst (cacheUtils_set key v ttl now now' cache))"
  by (simp add: cacheUtils_set_def Let_def distinct_update distinct_map_filter)

lemma cacheUtils_get_distinct:
  "distinct (map fst cache) \<Longrightarrow> distinct (map fst (snd (cacheUtils_get key now cache)))"
  by (simp add: cacheUtils_get_def distinct_delete split: option.splits)

lemma cacheUtils_set_lookup:
  assumes "distinct (map fst cache)"
  shows "map_of (cacheUtils_set key v ttl now now' cache) key =
     (if length (AList.update key
            \<lparr> ci_value = v, ci_expiry = now + dflt CACHE_DURATION ttl \<rparr> cache) > 100
         \<and> now + dflt CACHE_DURATION ttl < now'
      then None
      else Some \<lparr> ci_value = v, ci_expiry = now + dflt CACHE_DURATION ttl \<rparr>)"
  using assms
  by (simp add: cacheUtils_set_def Let_def map_of_filter_distinct distinct_update update_conv')

lemma set_then_get:
  assumes "distinct (map fst cache)" "now \<le> now'" "now' \<le> t"
  shows "fst (cacheUtils_get key t (cacheUtils_set key v ttl now now' cache)) =
     (if t \<le> now + dflt CACHE_DURATION ttl then Some v else None)"
  using assms by (auto simp: cacheUtils_get_def cacheUtils_set_lookup)

text \<open>
  C4 (as stated, refuted). A value set at time 0 with a TTL of 100 ms expires at 100.
  At time 100 the clock is not strictly before the expiry, yet \<open>get\<close> returns the value:
  the test of the source is \<open>Date.now() > item.expiry\<close>.
\<close>

theorem C4_counterexample:
  "\<not> (100 < ci_expiry (snd (hd (cacheUtils_set ''k'' (7::nat) (Some 100) 0 0 [])))) \<and>
   fst (cacheUtils_get ''k'' 100 (cacheUtils_set ''k'' (7::nat) (Some 100) 0 0 [])) = Some 7"
  by (simp add: cacheUtils_get_def cacheUtils_set_def dflt_def)

text \<open>
  C4 (amended). \<open>get\<close> returns the stored value exactly when the current time is not
  after the entry's expiry; when it is after, \<open>get\<close> deletes the entry and returns
  \<open>null\<close>; a key without an entry gives \<open>null\<close> and leaves the cache as it is. After a
  \<open>set\<close> (on a cache with distinct keys, the clock not running backwards), a \<open>get\<close> of
  the key returns the value exactly until set time + TTL, that instant included. A value
  set with a TTL of 100 ms is returned at once, and not 150 ms later.
\<close>

theorem C4_get:
  "(map_of cache key = None \<longrightarrow> cacheUtils_get key t cache = (None, cache)) \<and>
   (\<forall>item. map_of cache key = Some item \<longrightarrow>
      (t \<le> ci_expiry item \<longrightarrow> cacheUtils_get key t cache = (Some (ci_value item), cache)) \<and>
      (ci_expiry item < t \<longrightarrow>
         fst (cacheUtils_get key t cache) = None \<and>
         map_of (snd (cacheUtils_get key t cache)) key = None)) \<and>
   (distinct (map fst cache) \<and> now \<le> now' \<and> now' \<le> t \<longrightarrow>
      fst (cacheUtils_get key t (cacheUtils_set key v ttl now now' cache)) =
        (if t \<le> now + dflt CACHE_DURATION ttl then Some v else None)) \<and>
   (distinct (map fst cache) \<longrightarrow>
      fst (cacheUtils_get key now (cacheUtils_set key v (Some 100) now now cache)) = Some v \<and>
      fst (cacheUtils_get key (now + 150) (cacheUtils_set key v (Some 100) now now cache)) = None)"
proof -
  have a: "map_of cache key = None \<longrightarrow> cacheUtils_get key t cache = (None, cache)"
    by (simp add: cacheUtils_get_def)
  have b: "\<forall>item. map_of cache key = Some item \<longrightarrow>
      (t \<le> ci_expiry item \<longrightarrow> cacheUtils_get key t cache = (Some (ci_value item), cache)) \<and>
      (ci_expiry item < t \<longrightarrow>
         fst (cacheUtils_get key t cache) = None \<and>
         map_of (snd (cacheUtils_get key t cache)) key = None)"
    by (simp add: cacheUtils_get_def delete_conv')
  have c: "distinct (map fst cache) \<and> now \<le> now' \<and> now' \<le> t \<longrightarrow>
      fst (cacheUtils_get key t (cacheUtils_set key v ttl now now' cache)) =
        (if t \<le> now + dflt CACHE_DURATION ttl then Some v else None)"
    using set_then_get [of cache now now' t key v ttl] by blast
  have d: "distinct (map fst cache) \<longrightarrow>
      fst (cacheUtils_get key now (cacheUtils_set key v (Some 100) now now cache)) = Some v \<and>
      fst (cacheUtils_get key (now + 150) (cacheUtils_set key v (Some 100) now now cache)) = None"
    using set_then_get [of cache now now now key v "Some 100"]
      set_then_get [of cache now now "now + 150" key v "Some 100"]
    by (simp add: dflt_def)
  show ?thesis
    using a b c d by blast
qed

theorem C4_get_witness:
  "distinct (map fst ([] :: nat cache)) \<and>
   fst (cacheUtils_get ''k'' 1000 (cacheUtils_set ''k'' (7::nat) (Some 100) 1000 1000 [])) = Some 7 \<and>
   fst (cacheUtils_get ''k'' 1100 (cacheUtils_set ''k'' (7::nat) (Some 100) 1000 1000 [])) = Some 7 \<and>
   fst (cacheUtils_get ''k'' 1150 (cacheUtils_set ''k'' (7::nat) (Some 100) 1000 1000 [])) = None \<and>
   cacheUtils_get ''other'' 1000 (cacheUtils_set ''k'' (7::nat) (Some 100) 1000 1000 []) =
     (None, cacheUtils_set ''k'' (7::nat) (Some 100) 1000 1000 [])"
proof -
  have d: "distinct (map fst ([] :: nat cache))"
    by simp
  have o: "map_of (cacheUtils_set ''k'' (7::nat) (Some 100) 1000 1000 []) ''other'' = None"
    by (simp add: cacheUtils_set_def dflt_def)
  show ?thesis
    using d o
      C4_get [of "cacheUtils_set ''k'' (7::nat) (Some 100) 1000 1000 []" "''other''" 1000
        1000 1000 7 None]
      C4_get [of "[] :: nat cache" "''k''" 1100 1000 1000 7 "Some 100"]
    by (simp add: dflt_def)
qed


section \<open>Data Access Layer (financialDataService.js)\<close>

subsection \<open>The cache in localStorage\<close>

text \<open>
  The entries of \<open>localStorage\<close> under the prefix of the dashboard, in the order in
  which \<open>Object.keys\<close> lists them: the full key with the stored \<open>{ data, timestamp }\<close>.
  The storage is taken to hold well-formed entries only and to be readable; whether
  \<open>setItem\<close> succeeds is decided by the browser. Within one synchronous run of a
  function the clock is read as one value \<open>now\<close>.
\<close>

type_synonym 'd storage = "(string \<times> 'd \<times> int) list"

definition CACHE_PREFIX :: string where
  "CACHE_PREFIX = ''insurance_dashboard_''"

definition MAX_CACHE_SIZE :: nat where
  "MAX_CACHE_SIZE = 50"

definition cache_get :: "string \<Rightarrow> int \<Rightarrow> 'd storage \<Rightarrow> 'd option \<times> 'd storage" where
  "cache_get key now ls =
     (let fullKey = CACHE_PREFIX @ key
      in case map_of ls fullKey of
           None \<Rightarrow> (None, ls)
         | Some (dat, timestamp) \<Rightarrow>
             if now - timestamp < CACHE_DURATION then (Some dat, ls)
             else (None, AList.delete fullKey ls))"

text \<open>
  \<open>cache.cleanup()\<close>: the expired entries go; if more than \<open>MAX_CACHE_SIZE\<close> remain, the
  oldest go (a stable sort by timestamp).
\<close>

definition cache_cleanup :: "int \<Rightarrow> 'd storage \<Rightarrow> 'd storage" where
  "cache_cleanup now ls =
     (let remaining = filter (\<lambda>e. \<not> now - snd (snd e) \<ge> CACHE_DURATION) ls
      in if length remaining > MAX_CACHE_SIZE then
           let keysWithTimestamps = sort_key (\<lambda>e. snd (snd e)) remaining;
               toRemove = take (length remaining - MAX_CACHE_SIZE) keysWithTimestamps
           in filter (\<lambda>e. fst e \<notin> set (map fst toRemove)) remaining
         else remaining)"

text \<open>What \<open>localStorage.setItem\<close> does in \<open>cache.set\<close>: it stores, or throws and stores
  at the retry after the second cleanup, or throws twice.\<close>

datatype setItemOutcome = Stores | StoresOnRetry | Fails

definition cache_set :: "string \<Rightarrow> 'd \<Rightarrow> int \<Rightarrow> setItemOutcome \<Rightarrow> 'd storage \<Rightarrow> 'd storage" where
  "cache_set key dat now quota ls =
     (let fullKey = CACHE_PREFIX @ key;
          ls1 = cache_cleanup now ls
      in case quota of
           Stores \<Rightarrow> AList.update fullKey (dat, now) ls1
         | StoresOnRetry \<Rightarrow> AList.update fullKey (dat, now) (cache_cleanup now ls1)
         | Fails \<Rightarrow> cache_cleanup now ls1)"

subsection \<open>The request for one company\<close>

text \<open>The object that \<open>fetchCompanyFinancials\<close> resolves to; the cached copy has no
  \<open>source\<close>.\<close>

record companyFinancials =
  cf_ticker :: string
  cf_currentMetrics :: DerivedMetrics
  cf_historicalMetrics :: "DerivedMetrics list"
  cf_timestamp :: string
  cf_source :: "string option"

text \<open>
  What the provider answers to the two requests of one ticker: a \<open>fetch\<close> rejects with
  a message, or the two responses arrive with their \<open>ok\<close> flags and a body that either
  fails to parse (\<open>Inl\<close>, with the message) or is the pair of the income statements and
  the balance sheets (a body that is not an array has no \<open>length\<close> and counts as empty).
\<close>

datatype upstream =
  FetchRejects string
| Responses bool bool "string + RawFinancialRecord list \<times> RawFinancialRecord list"

text \<open>The spread \<open>{ ...a, ...b }\<close> of two raw records: a field of \<open>b\<close> wins where present.\<close>

definition orElse :: "'a option \<Rightarrow> 'a option \<Rightarrow> 'a option" where
  "orElse b a = (case b of None \<Rightarrow> a | Some x \<Rightarrow> Some x)"

definition spread :: "RawFinancialRecord \<Rightarrow> RawFinancialRecord \<Rightarrow> RawFinancialRecord" where
  "spread a b =
     \<lparr> revenue = orElse (revenue b) (revenue a),
       netIncome = orElse (netIncome b) (netIncome a),
       totalAssets = orElse (totalAssets b) (totalAssets a),
       totalStockholdersEquity = orElse (totalStockholdersEquity b) (totalStockholdersEquity a),
       weightedAverageShsOut = orElse (weightedAverageShsOut b) (weightedAverageShsOut a),
       sellingGeneralAndAdministrativeExpenses =
         orElse (sellingGeneralAndAdministrativeExpenses b)
           (sellingGeneralAndAdministrativeExpenses a),
       totalDebt = orElse (totalDebt b) (totalDebt a),
       operatingExpenses = orElse (operatingExpenses b) (operatingExpenses a),
       investmentIncome = orElse (investmentIncome b) (investmentIncome a),
       symbol = orElse (symbol b) (symbol a),
       calendarYear = orElse (calendarYear b) (calendarYear a),
       period = orElse (period b) (period a) \<rparr>"

text \<open>
  The historical metrics: the first four income statements, each spread with the
  balance sheet of its index (or with \<open>{}\<close>), the list reversed. Each calculation makes
  its own random draw, \<open>rnd (index + 1)\<close>. The label \<open>period\<close> written before the spread
  of the metrics is overwritten by the \<open>period\<close> of the metrics.
\<close>

definition historicalMetrics ::
  "RawFinancialRecord list \<Rightarrow> RawFinancialRecord list \<Rightarrow> (nat \<Rightarrow> rat) \<Rightarrow> DerivedMetrics list" where
  "historicalMetrics incomeData balanceData rnd =
     rev (map (\<lambda>(index, p).
            let balancePeriod = (if index < length balanceData then balanceData ! index
                                 else emptyRecord)
            in calculateInsuranceMetrics (spread p balancePeriod) (rnd (index + 1)))
          (enumerate 0 (take 4 incomeData)))"

text \<open>
  The \<open>try\<close> block of the request: \<open>Inl\<close> is the message of the error raised in it,
  \<open>Inr\<close> the object \<open>result\<close>. \<open>rnd 0\<close> is the random draw of the current metrics and
  \<open>timestamp\<close> is \<open>new Date().toISOString()\<close>. (The check of \<open>metrics.revenue\<close> after the
  calculation cannot fail: the calculator returns a number there.)
\<close>

definition produce ::
  "string \<Rightarrow> upstream \<Rightarrow> (nat \<Rightarrow> rat) \<Rightarrow> string \<Rightarrow> string + companyFinancials" where
  "produce ticker up rnd timestamp =
     (case up of
        FetchRejects msg \<Rightarrow> Inl msg
      | Responses incomeOk balanceOk body \<Rightarrow>
          if \<not> incomeOk \<or> \<not> balanceOk then Inl ''Failed to fetch financial data''
          else
            (case body of
               Inl msg \<Rightarrow> Inl msg
             | Inr (incomeData, balanceData) \<Rightarrow>
                 (case (incomeData, balanceData) of
                    (latestIncome # _, latestBalance # _) \<Rightarrow>
                      if \<not> (case revenue latestIncome of None \<Rightarrow> False | Some r \<Rightarrow> r > 0)
                      then Inl (''Invalid revenue data for '' @ ticker)
                      else if dflt [] (calendarYear latestIncome) = [] \<or>
                              dflt [] (period latestIncome) = []
                      then Inl (''Missing period information for '' @ ticker)
                      else
                        Inr \<lparr> cf_ticker = ticker,
                              cf_currentMetrics =
                                calculateInsuranceMetrics (spread latestIncome latestBalance) (rnd 0),
                              cf_historicalMetrics = historicalMetrics incomeData balanceData rnd,
                              cf_timestamp = timestamp,
                              cf_source = None \<rparr>
                  | _ \<Rightarrow> Inl (''No financial data available for '' @ ticker))))"

subsection \<open>Request deduplication\<close>

text \<open>
  A request promise (the promise of the async function that fetches, calculates and
  caches) is pending for the ticker of its closure, or fulfilled with the result, or
  rejected with a message.
\<close>

datatype promiseState = Pending string | Fulfilled companyFinancials | Rejected string

text \<open>
  The state of the module: the cache in \<open>localStorage\<close>, the map \<open>pendingRequests\<close> from
  cache keys to request promises, the request promises created so far, the log of the
  tickers for which a request to the provider was started, and the next promise.
\<close>

record service =
  localStorage :: "companyFinancials storage"
  pendingRequests :: "string \<rightharpoonup> nat"
  promises :: "nat \<rightharpoonup> promiseState"
  producerCalls :: "string list"
  nextPromise :: nat

text \<open>
  What a call of \<open>fetchCompanyFinancials\<close> hands to its caller: a promise already
  resolved with the cached copy, or a promise that follows a request promise.
\<close>

datatype handle = Ready companyFinancials | Await nat

definition cacheKeyOf :: "string \<Rightarrow> string" where
  "cacheKeyOf ticker = ''financials_'' @ ticker"

text \<open>
  A call of \<open>fetchCompanyFinancials(ticker)\<close> at the time \<open>now\<close>, up to its return: the
  async function of the request runs up to its first \<open>await\<close> (the two requests are
  sent) before the promise is registered, and nothing else runs in between.
\<close>

definition fetchCompanyFinancials :: "string \<Rightarrow> int \<Rightarrow> service \<Rightarrow> handle \<times> service" where
  "fetchCompanyFinancials ticker now st =
     (let cacheKey = cacheKeyOf ticker
      in case cache_get cacheKey now (localStorage st) of
           (Some cached, ls) \<Rightarrow>
             (Ready (cached \<lparr> cf_source := Some ''cache'' \<rparr>), st \<lparr> localStorage := ls \<rparr>)
         | (None, ls) \<Rightarrow>
             let st1 = st \<lparr> localStorage := ls \<rparr>
             in (case pendingRequests st1 cacheKey of
                   Some p \<Rightarrow> (Await p, st1)
                 | None \<Rightarrow>
                     let requestPromise = nextPromise st1
                     in (Await requestPromise,
                         st1 \<lparr> pendingRequests := (pendingRequests st1)(cacheKey \<mapsto> requestPromise),
                               promises := (promises st1)(requestPromise \<mapsto> Pending ticker),
                               producerCalls := producerCalls st1 @ [ticker],
                               nextPromise := requestPromise + 1 \<rparr>)))"

text \<open>
  The rest of the request promise \<open>p\<close>, run when the provider has answered with \<open>up\<close>
  at the time \<open>now\<close>: the \<open>try\<close> block with \<open>cache.set\<close> on success, the \<open>catch\<close> that
  wraps the message, and the \<open>finally\<close> that deletes the registration under the cache
  key. A promise that is not pending has no such continuation.
\<close>

definition requestSettles ::
  "nat \<Rightarrow> upstream \<Rightarrow> (nat \<Rightarrow> rat) \<Rightarrow> string \<Rightarrow> int \<Rightarrow> setItemOutcome \<Rightarrow> service \<Rightarrow> service" where
  "requestSettles p up rnd timestamp now quota st =
     (case promises st p of
        Some (Pending ticker) \<Rightarrow>
          let cacheKey = cacheKeyOf ticker
          in (case produce ticker up rnd timestamp of
                Inr result \<Rightarrow>
                  st \<lparr> localStorage := cache_set cacheKey result now quota (localStorage st),
                       pendingRequests := (pendingRequests st)(cacheKey := None),
                       promises := (promises st)(p \<mapsto>
                         Fulfilled (result \<lparr> cf_source := Some ''api'' \<rparr>)) \<rparr>
              | Inl msg \<Rightarrow>
                  st \<lparr> pendingRequests := (pendingRequests st)(cacheKey := None),
                       promises := (promises st)(p \<mapsto>
                         Rejected (''Failed to fetch data for '' @ ticker @ '': '' @ msg)) \<rparr>)
      | _ \<Rightarrow> st)"

text \<open>
  \<open>fetchMarketData\<close> shares the map \<open>pendingRequests\<close>, under the keys \<open>market_...\<close>.
  Its request reads \<open>FMP_BASE_URL\<close>, which the module does not declare: the template
  literal raises a ReferenceError before the first \<open>await\<close>, so the \<open>catch\<close> and the
  \<open>finally\<close> run before the function returns its promise, already rejected; only then
  is the promise registered. No request is sent and nothing is cached; \<open>cached\<close> is what
  \<open>cache.get\<close> returns for the key.
\<close>

record marketData =
  md_symbol :: string
  md_price :: rat
  md_change :: rat
  md_changePercent :: rat
  md_volume :: rat
  md_marketCap :: rat
  md_pe :: rat
  md_timestamp :: string
  md_source :: "string option"

datatype marketHandle = MarketReady marketData | MarketAwait nat

definition fetchMarketData ::
  "string \<Rightarrow> marketData option \<Rightarrow> service \<Rightarrow> marketHandle \<times> service" where
  "fetchMarketData ticker cached st =
     (let cacheKey = ''market_'' @ ticker
      in case cached of
           Some c \<Rightarrow> (MarketReady (c \<lparr> md_source := Some ''cache'' \<rparr>), st)
         | None \<Rightarrow>
             (case pendingRequests st cacheKey of
                Some p \<Rightarrow> (MarketAwait p, st)
              | None \<Rightarrow>
                  let requestPromise = nextPromise st
                  in (MarketAwait requestPromise,
                      st \<lparr> pendingRequests := (pendingRequests st)(cacheKey \<mapsto> requestPromise),
                           promises := (promises st)(requestPromise \<mapsto>
                             Rejected (''Failed to fetch market data for '' @ ticker @
                               '': FMP_BASE_URL is not defined'')),
                           nextPromise := requestPromise + 1 \<rparr>)))"

text \<open>The module after loading: nothing pending; \<open>localStorage\<close> holds what earlier
  sessions left.\<close>

definition initialService :: "companyFinancials storage \<Rightarrow> service" where
  "initialService ls =
     \<lparr> localStorage = ls, pendingRequests = Map.empty, promises = Map.empty,
       producerCalls = [], nextPromise = 0 \<rparr>"

text \<open>The states that calls and settlements reach, in any interleaving.\<close>

inductive reachable :: "service \<Rightarrow> bool" where
  init: "reachable (initialService ls)"
| call: "reachable st \<Longrightarrow> reachable (snd (fetchCompanyFinancials ticker now st))"
| settle: "reachable st \<Longrightarrow> reachable (requestSettles p up rnd timestamp now quota st)"
| market: "reachable st \<Longrightarrow> reachable (snd (fetchMarketData ticker cached st))"

subsection \<open>The request for several companies\<close>

text \<open>
  \<open>tickers.map(ticker => fetchCompanyFinancials(ticker).catch(...))\<close>: the calls are made
  one after the other in one synchronous run.
\<close>

fun startAll :: "string list \<Rightarrow> int \<Rightarrow> service \<Rightarrow> handle list \<times> service" where
  "startAll [] now st = ([], st)"
| "startAll (ticker # rest) now st =
     (case fetchCompanyFinancials ticker now st of
        (h, st1) \<Rightarrow> (case startAll rest now st1 of (hs, st2) \<Rightarrow> (h # hs, st2)))"

text \<open>An element of the array of \<open>fetchMultipleCompanyFinancials\<close>: the object of a
  company, or \<open>{ ticker, error, currentMetrics: null }\<close>.\<close>

datatype batchItem = Success companyFinancials | Failure string string

text \<open>
  The promise \<open>fetchCompanyFinancials(ticker).catch(error => ...)\<close> in a state: \<open>None\<close>
  while the request is pending, and never a rejection.
\<close>

definition caught :: "service \<Rightarrow> string \<times> handle \<Rightarrow> batchItem option" where
  "caught st th =
     (case snd th of
        Ready r \<Rightarrow> Some (Success r)
      | Await p \<Rightarrow>
          (case promises st p of
             Some (Fulfilled r) \<Rightarrow> Some (Success r)
           | Some (Rejected msg) \<Rightarrow> Some (Failure (fst th) msg)
           | _ \<Rightarrow> None))"

text \<open>\<open>Promise.all\<close> of promises that do not reject: pending until all are settled.\<close>

fun promiseAll :: "'a option list \<Rightarrow> 'a list option" where
  "promiseAll [] = Some []"
| "promiseAll (None # rest) = None"
| "promiseAll (Some x # rest) = (case promiseAll rest of None \<Rightarrow> None | Some xs \<Rightarrow> Some (x # xs))"

text \<open>
  \<open>fetchMultipleCompanyFinancials(tickers)\<close>: the calls it makes, and what its promise
  has resolved to in a later state \<open>st'\<close> (\<open>None\<close> while it is pending).
\<close>

definition fetchMultipleCompanyFinancials ::
  "string list \<Rightarrow> int \<Rightarrow> service \<Rightarrow> handle list \<times> service" where
  "fetchMultipleCompanyFinancials tickers now st = startAll tickers now st"

definition batchResult :: "string list \<Rightarrow> handle list \<Rightarrow> service \<Rightarrow> batchItem list option" where
  "batchResult tickers handles st' = promiseAll (map (caught st') (zip tickers handles))"

text \<open>The provider answers every pending request of the listed promises, one after the
  other.\<close>

fun settleAll ::
  "nat list \<Rightarrow> (nat \<Rightarrow> upstream) \<Rightarrow> (nat \<Rightarrow> rat) \<Rightarrow> string \<Rightarrow> int \<Rightarrow> setItemOutcome \<Rightarrow>
   service \<Rightarrow> service" where
  "settleAll [] ups rnd timestamp now quota st = st"
| "settleAll (p # ps) ups rnd timestamp now quota st =
     settleAll ps ups rnd timestamp now quota (requestSettles p (ups p) rnd timestamp now quota st)"

text \<open>The request promises that a list of handles follows.\<close>

fun followed :: "handle list \<Rightarrow> nat list" where
  "followed [] = []"
| "followed (Ready r # hs) = followed hs"
| "followed (Await p # hs) = p # followed hs"

text \<open>
  What a pending request promise of \<open>ticker\<close> settles to when the provider answers
  with \<open>up\<close>: fulfilled with \<open>{ ...result, source: 'api' }\<close>, or rejected with the wrapped
  message.
\<close>

definition settlement :: "string \<Rightarrow> upstream \<Rightarrow> (nat \<Rightarrow> rat) \<Rightarrow> string \<Rightarrow> promiseState" where
  "settlement ticker up rnd timestamp =
     (case produce ticker up rnd timestamp of
        Inr result \<Rightarrow> Fulfilled (result \<lparr> cf_source := Some ''api'' \<rparr>)
      | Inl msg \<Rightarrow> Rejected (''Failed to fetch data for '' @ ticker @ '': '' @ msg))"

text \<open>A handle is settled in a state: its promise is fulfilled or rejected there.\<close>

definition settledIn :: "service \<Rightarrow> handle \<Rightarrow> bool" where
  "settledIn st h =
     (case h of
        Ready r \<Rightarrow> True
      | Await p \<Rightarrow>
          (case promises st p of
             Some (Fulfilled r) \<Rightarrow> True
           | Some (Rejected msg) \<Rightarrow> True
           | _ \<Rightarrow> False))"

definition isSettled :: "service \<Rightarrow> nat \<Rightarrow> bool" where
  "isSettled st p = settledIn st (Await p)"

text \<open>
  The invariant of the module: a registration under the cache key of a ticker is the
  pending request promise of the ticker, and the other way round; such a key has no
  entry in the cache; promises are numbered below \<open>nextPromise\<close>.
\<close>

definition consistent :: "service \<Rightarrow> bool" where
  "consistent st \<longleftrightarrow>
     (\<forall>t p. pendingRequests st (cacheKeyOf t) = Some p \<longrightarrow> promises st p = Some (Pending t)) \<and>
     (\<forall>p t. promises st p = Some (Pending t) \<longrightarrow> pendingRequests st (cacheKeyOf t) = Some p) \<and>
     (\<forall>t. pendingRequests st (cacheKeyOf t) \<noteq> None \<longrightarrow>
        map_of (localStorage st) (CACHE_PREFIX @ cacheKeyOf t) = None) \<and>
     (\<forall>p. promises st p \<noteq> None \<longrightarrow> p < nextPromise st)"


section \<open>Properties of the Data Access Layer\<close>

lemma cacheKeyOf_inj [simp]: "cacheKeyOf a = cacheKeyOf b \<longleftrightarrow> a = b"
  by (simp add: cacheKeyOf_def)

lemma map_of_filter_None: "map_of ls k = None \<Longrightarrow> map_of (filter P ls) k = None"
  by (auto simp: map_of_eq_None_iff)

lemma cache_cleanup_None: "map_of ls k = None \<Longrightarrow> map_of (cache_cleanup now ls) k = None"
  by (simp add: cache_cleanup_def Let_def map_of_filter_None)

lemma cache_set_None:
  "map_of ls k' = None \<Longrightarrow> k' \<noteq> CACHE_PREFIX @ k \<Longrightarrow> map_of (cache_set k d now q ls) k' = None"
  by (cases q) (simp_all add: cache_set_def Let_def update_conv' cache_cleanup_None)

lemma cache_set_Fails_None:
  "map_of ls k' = None \<Longrightarrow> map_of (cache_set k d now Fails ls) k' = None"
  by (simp add: cache_set_def Let_def cache_cleanup_None)

lemma cache_set_stored:
  "q \<noteq> Fails \<Longrightarrow> map_of (cache_set k d now q ls) (CACHE_PREFIX @ k) = Some (d, now)"
  by (cases q) (simp_all add: cache_set_def Let_def update_conv')

lemma cache_get_hit: "cache_get k now ls = (Some d, ls') \<Longrightarrow> ls' = ls"
  by (auto simp: cache_get_def Let_def split: option.splits if_splits)

lemma cache_get_miss:
  "cache_get k now ls = (None, ls') \<Longrightarrow> map_of ls' (CACHE_PREFIX @ k) = None"
  by (auto simp: cache_get_def Let_def delete_conv' split: option.splits if_splits)

lemma cache_get_None:
  "map_of ls k' = None \<Longrightarrow> map_of (snd (cache_get k now ls)) k' = None"
  by (auto simp: cache_get_def Let_def delete_conv' split: option.splits if_splits)

lemma cache_get_absent:
  "map_of ls (CACHE_PREFIX @ k) = None \<Longrightarrow> cache_get k now ls = (None, ls)"
  by (simp add: cache_get_def)

lemma consistent_init: "consistent (initialService ls)"
  by (simp add: consistent_def initialService_def)

lemma consistentD:
  assumes "consistent st"
  shows "pendingRequests st (cacheKeyOf t) = Some p \<Longrightarrow> promises st p = Some (Pending t)"
    and "promises st p = Some (Pending t) \<Longrightarrow> pendingRequests st (cacheKeyOf t) = Some p"
    and "pendingRequests st (cacheKeyOf t) = Some p \<Longrightarrow>
           map_of (localStorage st) (CACHE_PREFIX @ cacheKeyOf t) = None"
    and "promises st p = Some x \<Longrightarrow> p < nextPromise st"
  using assms unfolding consistent_def by blast+

lemma consistent_fresh: "consistent st \<Longrightarrow> promises st (nextPromise st) = None"
  using consistentD(4) [of st "nextPromise st"] by (cases "promises st (nextPromise st)") auto

lemma consistent_storage:
  assumes c: "consistent st"
    and keep: "\<And>k. map_of (localStorage st) k = None \<Longrightarrow> map_of ls k = None"
  shows "consistent (st \<lparr> localStorage := ls \<rparr>)"
    (is "consistent ?st'")
proof -
  have i1: "promises ?st' p = Some (Pending t)" if "pendingRequests ?st' (cacheKeyOf t) = Some p" for t p
    using that consistentD(1) [OF c, of t p] by simp
  have i2: "pendingRequests ?st' (cacheKeyOf t) = Some p" if "promises ?st' p = Some (Pending t)" for p t
    using that consistentD(2) [OF c, of p t] by simp
  have i3: "map_of (localStorage ?st') (CACHE_PREFIX @ cacheKeyOf t) = None"
    if "pendingRequests ?st' (cacheKeyOf t) \<noteq> None" for t
  proof -
    from that obtain p where "pendingRequests st (cacheKeyOf t) = Some p"
      by auto
    then have "map_of (localStorage st) (CACHE_PREFIX @ cacheKeyOf t) = None"
      by (rule consistentD(3) [OF c])
    then have "map_of ls (CACHE_PREFIX @ cacheKeyOf t) = None"
      by (rule keep)
    then show ?thesis
      by simp
  qed
  have i4: "p < nextPromise ?st'" if "promises ?st' p \<noteq> None" for p
  proof -
    from that obtain x where "promises st p = Some x"
      by auto
    then show ?thesis
      using consistentD(4) [OF c] by simp
  qed
  show ?thesis
    unfolding consistent_def using i1 i2 i3 i4 by blast
qed

lemma consistent_register:
  assumes c: "consistent st"
    and nopend: "pendingRequests st (cacheKeyOf ticker) = None"
    and miss: "map_of (localStorage st) (CACHE_PREFIX @ cacheKeyOf ticker) = None"
  shows "consistent (st \<lparr> pendingRequests := (pendingRequests st)(cacheKeyOf ticker \<mapsto> nextPromise st),
            promises := (promises st)(nextPromise st \<mapsto> Pending ticker),
            producerCalls := producerCalls st @ [ticker],
            nextPromise := nextPromise st + 1 \<rparr>)"
    (is "consistent ?st'")
proof -
  have fresh: "promises st (nextPromise st) = None"
    using consistent_fresh [OF c] .
  have i1: "promises ?st' p = Some (Pending t)" if "pendingRequests ?st' (cacheKeyOf t) = Some p" for t p
  proof (cases "t = ticker")
    case True
    with that show ?thesis by simp
  next
    case False
    with that have old: "pendingRequests st (cacheKeyOf t) = Some p"
      by simp
    then have pt: "promises st p = Some (Pending t)"
      using consistentD(1) [OF c] by blast
    then have "p \<noteq> nextPromise st"
      using fresh by auto
    with pt show ?thesis by simp
  qed
  have i2: "pendingRequests ?st' (cacheKeyOf t) = Some p" if "promises ?st' p = Some (Pending t)" for p t
  proof (cases "p = nextPromise st")
    case True
    with that show ?thesis by simp
  next
    case False
    with that have "promises st p = Some (Pending t)"
      by simp
    then have reg: "pendingRequests st (cacheKeyOf t) = Some p"
      using consistentD(2) [OF c] by blast
    then have "t \<noteq> ticker"
      using nopend by auto
    with reg show ?thesis by simp
  qed
  have i3: "map_of (localStorage ?st') (CACHE_PREFIX @ cacheKeyOf t) = None"
    if "pendingRequests ?st' (cacheKeyOf t) \<noteq> None" for t
  proof (cases "t = ticker")
    case True
    with miss show ?thesis by simp
  next
    case False
    with that have "\<exists>p. pendingRequests st (cacheKeyOf t) = Some p"
      by simp
    then show ?thesis
      using consistentD(3) [OF c] by auto
  qed
  have i4: "p < nextPromise ?st'" if "promises ?st' p \<noteq> None" for p
  proof (cases "p = nextPromise st")
    case True
    then show ?thesis by simp
  next
    case False
    with that have "\<exists>x. promises st p = Some x"
      by simp
    then show ?thesis
      using consistentD(4) [OF c] by (auto simp: less_Suc_eq)
  qed
  show ?thesis
    unfolding consistent_def using i1 i2 i3 i4 by blast
qed

lemma consistent_call:
  assumes c: "consistent st"
  shows "consistent (snd (fetchCompanyFinancials ticker now st))"
proof (cases "cache_get (cacheKeyOf ticker) now (localStorage st)")
  case (Pair r ls)
  have keep: "map_of ls k = None" if "map_of (localStorage st) k = None" for k
    using cache_get_None [OF that, of "cacheKeyOf ticker" now] Pair by simp
  have c1: "consistent (st \<lparr> localStorage := ls \<rparr>)"
    using consistent_storage [OF c keep] .
  show ?thesis
  proof (cases r)
    case (Some cached)
    then show ?thesis
      using c1 Pair by (simp add: fetchCompanyFinancials_def)
  next
    case None
    have miss: "map_of ls (CACHE_PREFIX @ cacheKeyOf ticker) = None"
      using Pair None cache_get_miss by fastforce
    show ?thesis
    proof (cases "pendingRequests st (cacheKeyOf ticker)")
      case (Some p)
      then show ?thesis
        using c1 Pair None by (simp add: fetchCompanyFinancials_def)
    next
      case nopend: None
      show ?thesis
        using consistent_register [of "st \<lparr> localStorage := ls \<rparr>" ticker] c1 miss nopend Pair None
        by (simp add: fetchCompanyFinancials_def Let_def)
    qed
  qed
qed

lemma consistent_deregister:
  assumes c: "consistent st"
    and pend: "promises st p = Some (Pending ticker)"
    and fin: "\<And>t'. x \<noteq> Pending t'"
    and keep: "\<And>k. k \<noteq> CACHE_PREFIX @ cacheKeyOf ticker \<Longrightarrow>
                 map_of (localStorage st) k = None \<Longrightarrow> map_of ls k = None"
  shows "consistent (st \<lparr> localStorage := ls,
            pendingRequests := (pendingRequests st)(cacheKeyOf ticker := None),
            promises := (promises st)(p \<mapsto> x) \<rparr>)"
    (is "consistent ?st'")
proof -
  have reg: "pendingRequests st (cacheKeyOf ticker) = Some p"
    using consistentD(2) [OF c pend] .
  have i1: "promises ?st' q = Some (Pending t)"
    if "pendingRequests ?st' (cacheKeyOf t) = Some q" for t q
  proof -
    from that have t: "t \<noteq> ticker" and old: "pendingRequests st (cacheKeyOf t) = Some q"
      by (auto split: if_splits)
    then have pt: "promises st q = Some (Pending t)"
      using consistentD(1) [OF c] by blast
    with t pend have "q \<noteq> p"
      by auto
    with pt show ?thesis by simp
  qed
  have i2: "pendingRequests ?st' (cacheKeyOf t) = Some q"
    if "promises ?st' q = Some (Pending t)" for q t
  proof -
    from that fin have q: "q \<noteq> p" and old: "promises st q = Some (Pending t)"
      by (auto split: if_splits)
    then have r: "pendingRequests st (cacheKeyOf t) = Some q"
      using consistentD(2) [OF c] by blast
    with reg q have "t \<noteq> ticker"
      by auto
    with r show ?thesis by simp
  qed
  have i3: "map_of (localStorage ?st') (CACHE_PREFIX @ cacheKeyOf t) = None"
    if "pendingRequests ?st' (cacheKeyOf t) \<noteq> None" for t
  proof -
    from that have t: "t \<noteq> ticker" and "\<exists>q. pendingRequests st (cacheKeyOf t) = Some q"
      by (auto split: if_splits)
    then have "map_of (localStorage st) (CACHE_PREFIX @ cacheKeyOf t) = None"
      using consistentD(3) [OF c] by blast
    with t show ?thesis
      using keep [of "CACHE_PREFIX @ cacheKeyOf t"] by simp
  qed
  have i4: "q < nextPromise ?st'" if "promises ?st' q \<noteq> None" for q
  proof -
    from that have "q = p \<or> (\<exists>y. promises st q = Some y)"
      by (auto split: if_splits)
    then show ?thesis
      using consistentD(4) [OF c] pend by auto
  qed
  show ?thesis
    unfolding consistent_def using i1 i2 i3 i4 by blast
qed

lemma consistent_settle:
  assumes c: "consistent st"
  shows "consistent (requestSettles p up rnd timestamp now quota st)"
proof (cases "promises st p")
  case None
  then show ?thesis
    using c by (simp add: requestSettles_def)
next
  case (Some x)
  show ?thesis
  proof (cases x)
    case (Pending ticker)
    with Some have pend: "promises st p = Some (Pending ticker)"
      by simp
    show ?thesis
    proof (cases "produce ticker up rnd timestamp")
      case (Inl msg)
      have "consistent (st \<lparr> localStorage := localStorage st,
              pendingRequests := (pendingRequests st)(cacheKeyOf ticker := None),
              promises := (promises st)(p \<mapsto>
                Rejected (''Failed to fetch data for '' @ ticker @ '': '' @ msg)) \<rparr>)"
        by (rule consistent_deregister [OF c pend]) simp_all
      then show ?thesis
        using pend Inl by (simp add: requestSettles_def Let_def)
    next
      case (Inr result)
      have "consistent (st \<lparr> localStorage :=
                cache_set (cacheKeyOf ticker) result now quota (localStorage st),
              pendingRequests := (pendingRequests st)(cacheKeyOf ticker := None),
              promises := (promises st)(p \<mapsto> Fulfilled (result \<lparr> cf_source := Some ''api'' \<rparr>)) \<rparr>)"
        by (rule consistent_deregister [OF c pend]) (simp_all add: cache_set_None)
      then show ?thesis
        using pend Inr by (simp add: requestSettles_def Let_def)
    qed
  next
    case (Fulfilled r)
    with Some show ?thesis
      using c by (simp add: requestSettles_def)
  next
    case (Rejected m)
    with Some show ?thesis
      using c by (simp add: requestSettles_def)
  qed
qed

lemma market_key: "cacheKeyOf t \<noteq> ''market_'' @ ticker"
  by (simp add: cacheKeyOf_def)

lemma upd_market:
  "(pr(''market_'' @ ticker \<mapsto> n)) (cacheKeyOf t) = pr (cacheKeyOf t)"
  using market_key [of t ticker] by (simp del: append.simps)

lemma market_hit:
  "fetchMarketData ticker (Some c) st = (MarketReady (c \<lparr> md_source := Some ''cache'' \<rparr>), st)"
  by (simp add: fetchMarketData_def)

lemma market_shared:
  "pendingRequests st (''market_'' @ ticker) = Some p \<Longrightarrow>
   fetchMarketData ticker None st = (MarketAwait p, st)"
  by (simp add: fetchMarketData_def)

lemma market_new:
  "pendingRequests st (''market_'' @ ticker) = None \<Longrightarrow>
   fetchMarketData ticker None st =
     (MarketAwait (nextPromise st),
      st \<lparr> pendingRequests := (pendingRequests st)(''market_'' @ ticker \<mapsto> nextPromise st),
           promises := (promises st)(nextPromise st \<mapsto>
             Rejected (''Failed to fetch market data for '' @ ticker @
               '': FMP_BASE_URL is not defined'')),
           nextPromise := nextPromise st + 1 \<rparr>)"
  by (simp add: fetchMarketData_def Let_def)

lemma consistent_market_register:
  assumes c: "consistent st"
  shows "consistent
     (st \<lparr> pendingRequests := (pendingRequests st)(''market_'' @ ticker \<mapsto> nextPromise st),
          promises := (promises st)(nextPromise st \<mapsto> Rejected msg),
          nextPromise := nextPromise st + 1 \<rparr>)"
    (is "consistent ?st'")
proof -
  have fresh: "promises st (nextPromise st) = None"
    using consistent_fresh [OF c] .
  have pr: "pendingRequests ?st' (cacheKeyOf t) = pendingRequests st (cacheKeyOf t)" for t
    using market_key [of t ticker] by (simp del: append.simps)
  have i1: "promises ?st' p = Some (Pending t)" if "pendingRequests ?st' (cacheKeyOf t) = Some p" for t p
  proof -
    from that have "pendingRequests st (cacheKeyOf t) = Some p"
      by (simp only: pr)
    then have pt: "promises st p = Some (Pending t)"
      using consistentD(1) [OF c] by blast
    then have "p \<noteq> nextPromise st"
      using fresh by auto
    with pt show ?thesis by simp
  qed
  have i2: "pendingRequests ?st' (cacheKeyOf t) = Some p" if "promises ?st' p = Some (Pending t)" for p t
  proof -
    from that have "promises st p = Some (Pending t)"
      by (auto split: if_splits)
    then have "pendingRequests st (cacheKeyOf t) = Some p"
      using consistentD(2) [OF c] by blast
    then show ?thesis
      by (simp only: pr)
  qed
  have i3: "map_of (localStorage ?st') (CACHE_PREFIX @ cacheKeyOf t) = None"
    if "pendingRequests ?st' (cacheKeyOf t) \<noteq> None" for t
  proof -
    from that have "\<exists>p. pendingRequests st (cacheKeyOf t) = Some p"
      by (simp only: pr) auto
    then have "map_of (localStorage st) (CACHE_PREFIX @ cacheKeyOf t) = None"
      using consistentD(3) [OF c] by blast
    then show ?thesis
      by simp
  qed
  have i4: "p < nextPromise ?st'" if "promises ?st' p \<noteq> None" for p
  proof (cases "p = nextPromise st")
    case True
    then show ?thesis by simp
  next
    case False
    with that have "\<exists>x. promises st p = Some x"
      by simp
    then show ?thesis
      using consistentD(4) [OF c] by (auto simp: less_Suc_eq)
  qed
  show ?thesis
    unfolding consistent_def using i1 i2 i3 i4 by blast
qed

lemma consistent_market:
  assumes c: "consistent st"
  shows "consistent (snd (fetchMarketData ticker cached st))"
proof (cases cached)
  case (Some x)
  then show ?thesis
    using c by (simp add: market_hit)
next
  case None
  show ?thesis
  proof (cases "pendingRequests st (''market_'' @ ticker)")
    case (Some p)
    then show ?thesis
      using c None market_shared [of st ticker p] by simp
  next
    case nopend: None
    show ?thesis
      using None market_new [OF nopend]
        consistent_market_register [OF c, of "''Failed to fetch market data for '' @ ticker @
               '': FMP_BASE_URL is not defined''" ticker]
      by (simp del: append.simps)
  qed
qed

lemma reachable_consistent: "reachable st \<Longrightarrow> consistent st"
  by (induction rule: reachable.induct)
    (simp_all add: consistent_init consistent_call consistent_settle consistent_market)

lemma in_flight_dedup:
  assumes c: "consistent st" and pend: "promises st p = Some (Pending ticker)"
  shows "fetchCompanyFinancials ticker now st = (Await p, st)"
proof -
  have reg: "pendingRequests st (cacheKeyOf ticker) = Some p"
    using consistentD(2) [OF c pend] .
  then have "map_of (localStorage st) (CACHE_PREFIX @ cacheKeyOf ticker) = None"
    using consistentD(3) [OF c] by blast
  then have "cache_get (cacheKeyOf ticker) now (localStorage st) = (None, localStorage st)"
    by (rule cache_get_absent)
  then show ?thesis
    using reg by (simp add: fetchCompanyFinancials_def)
qed

lemma settle_deregisters:
  assumes pend: "promises st p = Some (Pending ticker)"
  shows "pendingRequests (requestSettles p up rnd ts now q st) (cacheKeyOf ticker) = None"
    and "promises (requestSettles p up rnd ts now q st) p = Some (settlement ticker up rnd ts)"
    and "producerCalls (requestSettles p up rnd ts now q st) = producerCalls st"
    and "nextPromise (requestSettles p up rnd ts now q st) = nextPromise st"
  using pend by (simp_all add: requestSettles_def settlement_def Let_def split: sum.splits)

lemma settle_storage:
  assumes pend: "promises st p = Some (Pending ticker)"
  shows "produce ticker up rnd ts = Inl msg \<Longrightarrow>
           localStorage (requestSettles p up rnd ts now q st) = localStorage st"
    and "produce ticker up rnd ts = Inr r \<Longrightarrow>
           localStorage (requestSettles p up rnd ts now q st) =
             cache_set (cacheKeyOf ticker) r now q (localStorage st)"
  using pend by (simp_all add: requestSettles_def Let_def)

lemma call_fresh:
  assumes "pendingRequests st (cacheKeyOf ticker) = None"
    and "map_of (localStorage st) (CACHE_PREFIX @ cacheKeyOf ticker) = None"
  shows "fst (fetchCompanyFinancials ticker now st) = Await (nextPromise st)"
    and "producerCalls (snd (fetchCompanyFinancials ticker now st)) = producerCalls st @ [ticker]"
    and "promises (snd (fetchCompanyFinancials ticker now st)) (nextPromise st) = Some (Pending ticker)"
  using assms by (simp_all add: fetchCompanyFinancials_def cache_get_absent Let_def)

lemma call_expired:
  assumes "pendingRequests st (cacheKeyOf ticker) = None"
    and "map_of (localStorage st) (CACHE_PREFIX @ cacheKeyOf ticker) = Some (d, t0)"
    and "CACHE_DURATION \<le> now - t0"
  shows "fst (fetchCompanyFinancials ticker now st) = Await (nextPromise st)"
    and "producerCalls (snd (fetchCompanyFinancials ticker now st)) = producerCalls st @ [ticker]"
  using assms by (simp_all add: fetchCompanyFinancials_def cache_get_def Let_def)

lemma call_cached:
  assumes "map_of (localStorage st) (CACHE_PREFIX @ cacheKeyOf ticker) = Some (d, t0)"
    and "now - t0 < CACHE_DURATION"
  shows "fetchCompanyFinancials ticker now st = (Ready (d \<lparr> cf_source := Some ''cache'' \<rparr>), st)"
  using assms by (simp add: fetchCompanyFinancials_def cache_get_def Let_def)

lemma startAll_length_aux:
  "startAll tickers now st = (hs, st') \<Longrightarrow> length hs = length tickers"
proof (induction tickers arbitrary: st hs st')
  case Nil
  then show ?case by simp
next
  case (Cons t ts)
  obtain h st1 where call: "fetchCompanyFinancials t now st = (h, st1)"
    by (cases "fetchCompanyFinancials t now st") auto
  obtain hs1 st2 where rest: "startAll ts now st1 = (hs1, st2)"
    by (cases "startAll ts now st1") auto
  from Cons.prems call rest have "hs = h # hs1"
    by simp
  then show ?case
    using Cons.IH [OF rest] by simp
qed

lemma startAll_length: "length (fst (startAll tickers now st)) = length tickers"
  using startAll_length_aux [of tickers now st] by (cases "startAll tickers now st") simp

lemma call_keeps_promises:
  "promises st q \<noteq> None \<Longrightarrow> promises (snd (fetchCompanyFinancials t now st)) q \<noteq> None"
  by (auto simp: fetchCompanyFinancials_def Let_def split: prod.splits option.splits)

lemma call_handle_exists:
  assumes "consistent st"
  shows "case fst (fetchCompanyFinancials t now st) of
           Ready r \<Rightarrow> True
         | Await p \<Rightarrow> promises (snd (fetchCompanyFinancials t now st)) p \<noteq> None"
  using consistentD(1) [OF assms]
  by (fastforce simp: fetchCompanyFinancials_def Let_def split: prod.splits option.splits)

lemma startAll_keeps_promises:
  "promises st q \<noteq> None \<Longrightarrow> promises (snd (startAll ts now st)) q \<noteq> None"
proof (induction ts arbitrary: st)
  case Nil
  then show ?case by simp
next
  case (Cons t ts)
  obtain h st1 where call: "fetchCompanyFinancials t now st = (h, st1)"
    by (cases "fetchCompanyFinancials t now st") auto
  obtain hs st2 where rest: "startAll ts now st1 = (hs, st2)"
    by (cases "startAll ts now st1") auto
  have "promises st1 q \<noteq> None"
    using call_keeps_promises [OF Cons.prems, of t now] call by simp
  then have "promises st2 q \<noteq> None"
    using Cons.IH [of st1] rest by simp
  then show ?case
    using call rest by simp
qed

lemma startAll_consistent:
  "consistent st \<Longrightarrow> consistent (snd (startAll ts now st))"
proof (induction ts arbitrary: st)
  case Nil
  then show ?case by simp
next
  case (Cons t ts)
  obtain h st1 where call: "fetchCompanyFinancials t now st = (h, st1)"
    by (cases "fetchCompanyFinancials t now st") auto
  obtain hs st2 where rest: "startAll ts now st1 = (hs, st2)"
    by (cases "startAll ts now st1") auto
  have "consistent st1"
    using consistent_call [OF Cons.prems, of t now] call by simp
  then have "consistent st2"
    using Cons.IH [of st1] rest by simp
  then show ?case
    using call rest by simp
qed

lemma startAll_handles_exist:
  "consistent st \<Longrightarrow> \<forall>p \<in> set (followed (fst (startAll ts now st))).
       promises (snd (startAll ts now st)) p \<noteq> None"
proof (induction ts arbitrary: st)
  case Nil
  then show ?case by simp
next
  case (Cons t ts)
  obtain h st1 where call: "fetchCompanyFinancials t now st = (h, st1)"
    by (cases "fetchCompanyFinancials t now st") auto
  obtain hs st2 where rest: "startAll ts now st1 = (hs, st2)"
    by (cases "startAll ts now st1") auto
  have c1: "consistent st1"
    using consistent_call [OF Cons.prems, of t now] call by simp
  have ih: "\<forall>p \<in> set (followed hs). promises st2 p \<noteq> None"
    using Cons.IH [OF c1] rest by simp
  have hd: "promises st2 p \<noteq> None" if "h = Await p" for p
  proof -
    have "promises st1 p \<noteq> None"
      using call_handle_exists [OF Cons.prems, of t now] call that by simp
    then show ?thesis
      using startAll_keeps_promises [of st1 p ts now] rest by simp
  qed
  show ?case
    using call rest ih hd by (cases h) auto
qed

lemma settle_settles:
  "promises st p \<noteq> None \<Longrightarrow> isSettled (requestSettles p up rnd ts now q st) p"
  by (auto simp: isSettled_def settledIn_def requestSettles_def Let_def
      split: option.splits promiseState.splits sum.splits)

lemma settle_keeps_settled:
  "isSettled st r \<Longrightarrow> isSettled (requestSettles p up rnd ts now q st) r"
  by (auto simp: isSettled_def settledIn_def requestSettles_def Let_def
      split: option.splits promiseState.splits sum.splits)

lemma settle_keeps_promises:
  "promises st r \<noteq> None \<Longrightarrow> promises (requestSettles p up rnd ts now q st) r \<noteq> None"
  by (auto simp: requestSettles_def Let_def split: option.splits promiseState.splits sum.splits)

lemma settleAll_keeps_settled:
  "isSettled st r \<Longrightarrow> isSettled (settleAll ps ups rnd ts now q st) r"
  by (induction ps arbitrary: st) (simp_all add: settle_keeps_settled)

lemma settleAll_settles:
  "\<forall>p \<in> set ps. promises st p \<noteq> None \<Longrightarrow>
   \<forall>p \<in> set ps. isSettled (settleAll ps ups rnd ts now q st) p"
proof (induction ps arbitrary: st)
  case Nil
  then show ?case by simp
next
  case (Cons a ps)
  let ?st1 = "requestSettles a (ups a) rnd ts now q st"
  have a: "isSettled (settleAll ps ups rnd ts now q ?st1) a"
    using Cons.prems by (simp add: settle_settles settleAll_keeps_settled)
  have "\<forall>p \<in> set ps. promises ?st1 p \<noteq> None"
    using Cons.prems by (simp add: settle_keeps_promises)
  then have "\<forall>p \<in> set ps. isSettled (settleAll ps ups rnd ts now q ?st1) p"
    by (rule Cons.IH)
  with a show ?case by simp
qed

lemma promiseAll_Some:
  "\<forall>x \<in> set xs. x \<noteq> None \<Longrightarrow>
   \<exists>ys. promiseAll xs = Some ys \<and> length ys = length xs \<and> (\<forall>i < length xs. xs ! i = Some (ys ! i))"
proof (induction xs)
  case Nil
  then show ?case by simp
next
  case (Cons x xs)
  then obtain v where v: "x = Some v" by auto
  from Cons obtain ys where ys: "promiseAll xs = Some ys" "length ys = length xs"
      "\<forall>i < length xs. xs ! i = Some (ys ! i)"
    by auto
  show ?case
    using v ys by (auto simp: nth_Cons split: nat.splits)
qed

lemma followed_mem: "Await p \<in> set hs \<Longrightarrow> p \<in> set (followed hs)"
  by (induction hs rule: followed.induct) auto

lemma caught_settled: "settledIn st h \<Longrightarrow> caught st (t, h) \<noteq> None"
  by (auto simp: settledIn_def caught_def split: handle.splits option.splits promiseState.splits)

lemma batch_settled:
  assumes len: "length handles = length tickers"
    and all: "\<forall>h \<in> set handles. settledIn st' h"
  shows "\<exists>items. batchResult tickers handles st' = Some items \<and> length items = length tickers \<and>
         (\<forall>i < length tickers.
            (\<forall>p msg. handles ! i = Await p \<and> promises st' p = Some (Rejected msg) \<longrightarrow>
               items ! i = Failure (tickers ! i) msg) \<and>
            (\<forall>p r. handles ! i = Await p \<and> promises st' p = Some (Fulfilled r) \<longrightarrow>
               items ! i = Success r) \<and>
            (\<forall>r. handles ! i = Ready r \<longrightarrow> items ! i = Success r))"
proof -
  let ?xs = "map (caught st') (zip tickers handles)"
  have "\<forall>x \<in> set ?xs. x \<noteq> None"
    using all caught_settled by (auto dest: set_zip_rightD)
  then obtain items where items: "promiseAll ?xs = Some items" "length items = length ?xs"
      "\<forall>i < length ?xs. ?xs ! i = Some (items ! i)"
    using promiseAll_Some [of ?xs] by blast
  have l: "length ?xs = length tickers"
    using len by simp
  have nth: "caught st' (tickers ! i, handles ! i) = Some (items ! i)" if "i < length tickers" for i
    using items(3) that len by simp
  have shape: "(\<forall>p msg. handles ! i = Await p \<and> promises st' p = Some (Rejected msg) \<longrightarrow>
               items ! i = Failure (tickers ! i) msg) \<and>
            (\<forall>p r. handles ! i = Await p \<and> promises st' p = Some (Fulfilled r) \<longrightarrow>
               items ! i = Success r) \<and>
            (\<forall>r. handles ! i = Ready r \<longrightarrow> items ! i = Success r)"
    if "i < length tickers" for i
    using nth [OF that] by (auto simp: caught_def)
  show ?thesis
    using items(1,2) l shape by (auto simp: batchResult_def)
qed

lemma batch_returns:
  assumes "reachable st"
  shows "\<exists>items.
     batchResult tickers (fst (fetchMultipleCompanyFinancials tickers now st))
       (settleAll (followed (fst (fetchMultipleCompanyFinancials tickers now st))) ups rnd ts now' q
          (snd (fetchMultipleCompanyFinancials tickers now st))) = Some items \<and>
     length items = length tickers"
proof -
  let ?hs = "fst (startAll tickers now st)"
  let ?st1 = "snd (startAll tickers now st)"
  let ?st2 = "settleAll (followed ?hs) ups rnd ts now' q ?st1"
  have "\<forall>p \<in> set (followed ?hs). promises ?st1 p \<noteq> None"
    using startAll_handles_exist [OF reachable_consistent [OF assms]] .
  then have s: "\<forall>p \<in> set (followed ?hs). isSettled ?st2 p"
    by (rule settleAll_settles)
  have "\<forall>h \<in> set ?hs. settledIn ?st2 h"
  proof
    fix h assume h: "h \<in> set ?hs"
    show "settledIn ?st2 h"
    proof (cases h)
      case (Ready r)
      then show ?thesis by (simp add: settledIn_def)
    next
      case (Await p)
      with h have "p \<in> set (followed ?hs)"
        using followed_mem by simp
      with s Await show ?thesis by (simp add: isSettled_def)
    qed
  qed
  then show ?thesis
    using batch_settled [of ?hs tickers ?st2] startAll_length [of tickers now st]
    unfolding fetchMultipleCompanyFinancials_def by blast
qed

lemma after_settlement:
  assumes c: "consistent st" and pend: "promises st p = Some (Pending ticker)"
  shows "\<forall>msg. produce ticker up rnd ts = Inl msg \<longrightarrow>
      fst (fetchCompanyFinancials ticker now' (requestSettles p up rnd ts now q st)) =
        Await (nextPromise st) \<and>
      producerCalls (snd (fetchCompanyFinancials ticker now' (requestSettles p up rnd ts now q st))) =
        producerCalls st @ [ticker]"
    and "\<forall>r. produce ticker up rnd ts = Inr r \<longrightarrow>
      (q \<noteq> Fails \<and> now' - now < CACHE_DURATION \<longrightarrow>
         fetchCompanyFinancials ticker now' (requestSettles p up rnd ts now q st) =
           (Ready (r \<lparr> cf_source := Some ''cache'' \<rparr>), requestSettles p up rnd ts now q st)) \<and>
      (q = Fails \<or> CACHE_DURATION \<le> now' - now \<longrightarrow>
         fst (fetchCompanyFinancials ticker now' (requestSettles p up rnd ts now q st)) =
           Await (nextPromise st) \<and>
         producerCalls (snd (fetchCompanyFinancials ticker now' (requestSettles p up rnd ts now q st))) =
           producerCalls st @ [ticker])"
proof -
  let ?st1 = "requestSettles p up rnd ts now q st"
  have reg: "pendingRequests st (cacheKeyOf ticker) = Some p"
    using consistentD(2) [OF c pend] .
  have absent: "map_of (localStorage st) (CACHE_PREFIX @ cacheKeyOf ticker) = None"
    using consistentD(3) [OF c reg] .
  have nopend: "pendingRequests ?st1 (cacheKeyOf ticker) = None"
    and calls: "producerCalls ?st1 = producerCalls st"
    and nxt: "nextPromise ?st1 = nextPromise st"
    using settle_deregisters [OF pend] by simp_all
  show "\<forall>msg. produce ticker up rnd ts = Inl msg \<longrightarrow>
      fst (fetchCompanyFinancials ticker now' ?st1) = Await (nextPromise st) \<and>
      producerCalls (snd (fetchCompanyFinancials ticker now' ?st1)) = producerCalls st @ [ticker]"
  proof (intro allI impI)
    fix msg assume "produce ticker up rnd ts = Inl msg"
    then have "map_of (localStorage ?st1) (CACHE_PREFIX @ cacheKeyOf ticker) = None"
      using settle_storage(1) [OF pend] absent by simp
    then show "fst (fetchCompanyFinancials ticker now' ?st1) = Await (nextPromise st) \<and>
      producerCalls (snd (fetchCompanyFinancials ticker now' ?st1)) = producerCalls st @ [ticker]"
      using call_fresh [OF nopend] calls nxt by simp
  qed
  show "\<forall>r. produce ticker up rnd ts = Inr r \<longrightarrow>
      (q \<noteq> Fails \<and> now' - now < CACHE_DURATION \<longrightarrow>
         fetchCompanyFinancials ticker now' ?st1 = (Ready (r \<lparr> cf_source := Some ''cache'' \<rparr>), ?st1)) \<and>
      (q = Fails \<or> CACHE_DURATION \<le> now' - now \<longrightarrow>
         fst (fetchCompanyFinancials ticker now' ?st1) = Await (nextPromise st) \<and>
         producerCalls (snd (fetchCompanyFinancials ticker now' ?st1)) = producerCalls st @ [ticker])"
  proof (intro allI impI conjI)
    fix r assume res: "produce ticker up rnd ts = Inr r"
    have ls: "localStorage ?st1 = cache_set (cacheKeyOf ticker) r now q (localStorage st)"
      using settle_storage(2) [OF pend res] .
    {
      assume "q \<noteq> Fails \<and> now' - now < CACHE_DURATION"
      then show "fetchCompanyFinancials ticker now' ?st1 =
          (Ready (r \<lparr> cf_source := Some ''cache'' \<rparr>), ?st1)"
        using call_cached [of ?st1 ticker r now now'] ls cache_set_stored [of q "cacheKeyOf ticker" r now]
        by simp
    }
    {
      assume late: "q = Fails \<or> CACHE_DURATION \<le> now' - now"
      have "fst (fetchCompanyFinancials ticker now' ?st1) = Await (nextPromise st) \<and>
         producerCalls (snd (fetchCompanyFinancials ticker now' ?st1)) = producerCalls st @ [ticker]"
      proof (cases "q = Fails")
        case True
        then have "map_of (localStorage ?st1) (CACHE_PREFIX @ cacheKeyOf ticker) = None"
          using ls absent cache_set_Fails_None by simp
        then show ?thesis
          using call_fresh [OF nopend] calls nxt by simp
      next
        case False
        then have "map_of (localStorage ?st1) (CACHE_PREFIX @ cacheKeyOf ticker) = Some (r, now)"
          using ls cache_set_stored by simp
        moreover have "CACHE_DURATION \<le> now' - now"
          using late False by simp
        ultimately show ?thesis
          using call_expired [OF nopend] calls nxt by simp
      qed
      then show "fst (fetchCompanyFinancials ticker now' ?st1) = Await (nextPromise st)"
        and "producerCalls (snd (fetchCompanyFinancials ticker now' ?st1)) = producerCalls st @ [ticker]"
        by simp_all
    }
  qed
qed

subsection \<open>A scenario: Travelers, an unknown ticker, Progressive\<close>

definition trv_income :: RawFinancialRecord where
  "trv_income = emptyRecord \<lparr> revenue := Some 41000, netIncome := Some 3000,
     weightedAverageShsOut := Some 230, sellingGeneralAndAdministrativeExpenses := Some 5000,
     symbol := Some ''TRV'', calendarYear := Some ''2023'', period := Some ''FY'' \<rparr>"

definition trv_balance :: RawFinancialRecord where
  "trv_balance = emptyRecord \<lparr> totalAssets := Some 126000,
     totalStockholdersEquity := Some 25000, totalDebt := Some 8000,
     symbol := Some ''TRV'', calendarYear := Some ''2023'', period := Some ''FY'' \<rparr>"

definition pgr_income :: RawFinancialRecord where
  "pgr_income = emptyRecord \<lparr> revenue := Some 62000, netIncome := Some 3900,
     weightedAverageShsOut := Some 585, sellingGeneralAndAdministrativeExpenses := Some 9000,
     symbol := Some ''PGR'', calendarYear := Some ''2023'', period := Some ''FY'' \<rparr>"

definition pgr_balance :: RawFinancialRecord where
  "pgr_balance = emptyRecord \<lparr> totalAssets := Some 88000,
     totalStockholdersEquity := Some 20000, totalDebt := Some 7000,
     symbol := Some ''PGR'', calendarYear := Some ''2023'', period := Some ''FY'' \<rparr>"

text \<open>The provider's answers to the request promises 0, 1 and 2: statements for the
  first and the third, empty arrays for the second.\<close>

definition scenario_upstream :: "nat \<Rightarrow> upstream" where
  "scenario_upstream p =
     (if p = 0 then Responses True True (Inr ([trv_income], [trv_balance]))
      else if p = 2 then Responses True True (Inr ([pgr_income], [pgr_balance]))
      else Responses True True (Inr ([], [])))"

text \<open>Every random draw is one half.\<close>

definition half :: "nat \<Rightarrow> rat" where
  "half i = 1 / 2"

definition scenario_tickers :: "string list" where
  "scenario_tickers = [''TRV'', ''ZZZZ_INVALID'', ''PGR'']"

definition scenario_started :: "handle list \<times> service" where
  "scenario_started = fetchMultipleCompanyFinancials scenario_tickers 0 (initialService [])"

definition scenario_settled :: service where
  "scenario_settled =
     settleAll (followed (fst scenario_started)) scenario_upstream half
       ''2024-01-01T00:00:00.000Z'' 1000 Stores (snd scenario_started)"

text \<open>The ticker of a batch item with \<open>ok\<close> or its error message.\<close>

fun summary :: "batchItem \<Rightarrow> string \<times> string" where
  "summary (Success r) = (cf_ticker r, ''ok'')"
| "summary (Failure t msg) = (t, msg)"

fun isReady :: "handle \<Rightarrow> bool" where
  "isReady (Ready r) = True"
| "isReady (Await p) = False"

text \<open>One call for Travelers from the empty module: the request promise 0 is in flight.\<close>

definition trv_in_flight :: service where
  "trv_in_flight = snd (fetchCompanyFinancials ''TRV'' 0 (initialService []))"

text \<open>The request resolves at the time 1000 and the result is cached.\<close>

definition trv_resolved :: service where
  "trv_resolved =
     requestSettles 0 (scenario_upstream 0) half ''2024-01-01T00:00:00.000Z'' 1000 Stores
       trv_in_flight"

subsection \<open>Deduplication of requests\<close>

text \<open>
  C3 (as stated, refuted). After the request for Travelers has resolved, its
  registration is gone, but a call one second later does not invoke the producer afresh:
  it is answered from the cache (the handle is ready at once), and the log of producer
  calls still holds the one call.
\<close>

theorem C3_counterexample:
  "promises trv_in_flight 0 = Some (Pending ''TRV'') \<and>
   pendingRequests trv_resolved (cacheKeyOf ''TRV'') = None \<and>
   isReady (fst (fetchCompanyFinancials ''TRV'' 2000 trv_resolved)) \<and>
   producerCalls (snd (fetchCompanyFinancials ''TRV'' 2000 trv_resolved)) = [''TRV'']"
  by code_simp

text \<open>
  C3 (amended), for the requests of \<open>fetchCompanyFinancials\<close>. In every reachable state
  in which the request promise \<open>p\<close> of a ticker is in flight: a further call for the
  ticker returns the same promise \<open>p\<close> and changes nothing (the producer is not invoked
  again); when the request settles, resolved or rejected, the registration under the key
  is removed and \<open>p\<close> holds the outcome; after a rejection the next call invokes the
  producer afresh on a new promise; after a resolution the next call is answered from
  the cache while the cached result is fresh (stored, and younger than the cache
  duration), and invokes the producer afresh otherwise.
\<close>

theorem C3_deduplication:
  "reachable st \<and> promises st p = Some (Pending ticker) \<longrightarrow>
     fetchCompanyFinancials ticker t_call st = (Await p, st) \<and>
     pendingRequests (requestSettles p up rnd ts t_settle q st) (cacheKeyOf ticker) = None \<and>
     promises (requestSettles p up rnd ts t_settle q st) p = Some (settlement ticker up rnd ts) \<and>
     producerCalls (requestSettles p up rnd ts t_settle q st) = producerCalls st \<and>
     p \<noteq> nextPromise st \<and>
     (\<forall>msg. produce ticker up rnd ts = Inl msg \<longrightarrow>
        fst (fetchCompanyFinancials ticker t_next (requestSettles p up rnd ts t_settle q st)) =
          Await (nextPromise st) \<and>
        producerCalls
          (snd (fetchCompanyFinancials ticker t_next (requestSettles p up rnd ts t_settle q st))) =
          producerCalls st @ [ticker]) \<and>
     (\<forall>r. produce ticker up rnd ts = Inr r \<longrightarrow>
        (q \<noteq> Fails \<and> t_next - t_settle < CACHE_DURATION \<longrightarrow>
           fetchCompanyFinancials ticker t_next (requestSettles p up rnd ts t_settle q st) =
             (Ready (r \<lparr> cf_source := Some ''cache'' \<rparr>),
              requestSettles p up rnd ts t_settle q st)) \<and>
        (q = Fails \<or> CACHE_DURATION \<le> t_next - t_settle \<longrightarrow>
           fst (fetchCompanyFinancials ticker t_next (requestSettles p up rnd ts t_settle q st)) =
             Await (nextPromise st) \<and>
           producerCalls
             (snd (fetchCompanyFinancials ticker t_next (requestSettles p up rnd ts t_settle q st))) =
             producerCalls st @ [ticker]))"
proof (intro impI)
  assume a: "reachable st \<and> promises st p = Some (Pending ticker)"
  then have c: "consistent st" and pend: "promises st p = Some (Pending ticker)"
    using reachable_consistent by simp_all
  have "p < nextPromise st"
    using consistentD(4) [OF c pend] .
  then have fresh: "p \<noteq> nextPromise st"
    by simp
  show "fetchCompanyFinancials ticker t_call st = (Await p, st) \<and>
     pendingRequests (requestSettles p up rnd ts t_settle q st) (cacheKeyOf ticker) = None \<and>
     promises (requestSettles p up rnd ts t_settle q st) p = Some (settlement ticker up rnd ts) \<and>
     producerCalls (requestSettles p up rnd ts t_settle q st) = producerCalls st \<and>
     p \<noteq> nextPromise st \<and>
     (\<forall>msg. produce ticker up rnd ts = Inl msg \<longrightarrow>
        fst (fetchCompanyFinancials ticker t_next (requestSettles p up rnd ts t_settle q st)) =
          Await (nextPromise st) \<and>
        producerCalls
          (snd (fetchCompanyFinancials ticker t_next (requestSettles p up rnd ts t_settle q st))) =
          producerCalls st @ [ticker]) \<and>
     (\<forall>r. produce ticker up rnd ts = Inr r \<longrightarrow>
        (q \<noteq> Fails \<and> t_next - t_settle < CACHE_DURATION \<longrightarrow>
           fetchCompanyFinancials ticker t_next (requestSettles p up rnd ts t_settle q st) =
             (Ready (r \<lparr> cf_source := Some ''cache'' \<rparr>),
              requestSettles p up rnd ts t_settle q st)) \<and>
        (q = Fails \<or> CACHE_DURATION \<le> t_next - t_settle \<longrightarrow>
           fst (fetchCompanyFinancials ticker t_next (requestSettles p up rnd ts t_settle q st)) =
             Await (nextPromise st) \<and>
           producerCalls
             (snd (fetchCompanyFinancials ticker t_next (requestSettles p up rnd ts t_settle q st))) =
             producerCalls st @ [ticker]))"
    using in_flight_dedup [OF c pend, of t_call]
      settle_deregisters(1,2,3) [OF pend, of up rnd ts t_settle q]
      fresh
      after_settlement(1) [OF c pend, of up rnd ts t_next t_settle q]
      after_settlement(2) [OF c pend, of up rnd ts q t_next t_settle]
    by (intro conjI) assumption+
qed

theorem C3_deduplication_witness:
  "reachable trv_in_flight \<and> promises trv_in_flight 0 = Some (Pending ''TRV'') \<and>
   fst (fetchCompanyFinancials ''TRV'' 5 trv_in_flight) = Await 0 \<and>
   producerCalls (snd (fetchCompanyFinancials ''TRV'' 5 trv_in_flight)) = [''TRV''] \<and>
   pendingRequests
     (requestSettles 0 (FetchRejects ''Failed to fetch'') half ''2024-01-01T00:00:00.000Z'' 1000
        Stores trv_in_flight) (cacheKeyOf ''TRV'') = None \<and>
   fst (fetchCompanyFinancials ''TRV'' 2000
     (requestSettles 0 (FetchRejects ''Failed to fetch'') half ''2024-01-01T00:00:00.000Z'' 1000
        Stores trv_in_flight)) = Await 1 \<and>
   producerCalls (snd (fetchCompanyFinancials ''TRV'' 2000
     (requestSettles 0 (FetchRejects ''Failed to fetch'') half ''2024-01-01T00:00:00.000Z'' 1000
        Stores trv_in_flight))) = [''TRV'', ''TRV'']"
proof -
  have r: "reachable trv_in_flight"
    unfolding trv_in_flight_def by (rule reachable.call [OF reachable.init])
  have p: "promises trv_in_flight 0 = Some (Pending ''TRV'')"
    by code_simp
  have n: "nextPromise trv_in_flight = 1" and l: "producerCalls trv_in_flight = [''TRV'']"
    by code_simp+
  have f: "produce ''TRV'' (FetchRejects ''Failed to fetch'') half ''2024-01-01T00:00:00.000Z'' =
      Inl ''Failed to fetch''"
    by (simp add: produce_def)
  show ?thesis
    using r p n l f
      C3_deduplication [of trv_in_flight 0 "''TRV''" 5 "FetchRejects ''Failed to fetch''" half
        "''2024-01-01T00:00:00.000Z''" 1000 Stores 2000]
    by simp
qed

subsection \<open>The batch of several companies\<close>

text \<open>
  C7. For every list of tickers, \<open>fetchMultipleCompanyFinancials\<close> makes one call per
  ticker. Once every one of the calls has settled, its promise resolves to an array with
  one element per ticker, in the order of the tickers: \<open>{ ticker, error, currentMetrics:
  null }\<close> with the message of the rejection where the call of the ticker was rejected,
  and the result of the call otherwise; a rejection touches no other element. From every
  reachable state, when the provider has answered the requests that the calls follow
  (whatever the answers), the array is there, with as many elements as tickers.
\<close>

theorem C7_batch:
  "length (fst (fetchMultipleCompanyFinancials tickers now st)) = length tickers \<and>
   (length handles = length tickers \<and> (\<forall>h \<in> set handles. settledIn st' h) \<longrightarrow>
      (\<exists>items. batchResult tickers handles st' = Some items \<and> length items = length tickers \<and>
         (\<forall>i < length tickers.
            (\<forall>p msg. handles ! i = Await p \<and> promises st' p = Some (Rejected msg) \<longrightarrow>
               items ! i = Failure (tickers ! i) msg) \<and>
            (\<forall>p r. handles ! i = Await p \<and> promises st' p = Some (Fulfilled r) \<longrightarrow>
               items ! i = Success r) \<and>
            (\<forall>r. handles ! i = Ready r \<longrightarrow> items ! i = Success r)))) \<and>
   (reachable st \<longrightarrow>
      (\<exists>items.
         batchResult tickers (fst (fetchMultipleCompanyFinancials tickers now st))
           (settleAll (followed (fst (fetchMultipleCompanyFinancials tickers now st))) ups rnd ts
              now' q (snd (fetchMultipleCompanyFinancials tickers now st))) = Some items \<and>
         length items = length tickers))"
  using startAll_length [of tickers now st] batch_settled [of handles tickers st']
    batch_returns [of st tickers now ups rnd ts now' q]
  unfolding fetchMultipleCompanyFinancials_def by blast

theorem C7_batch_witness:
  "reachable (initialService []) \<and>
   fst scenario_started = [Await 0, Await 1, Await 2] \<and>
   (\<exists>items. batchResult scenario_tickers (fst scenario_started) scenario_settled = Some items \<and>
      length items = 3) \<and>
   map_option (map summary)
     (batchResult scenario_tickers (fst scenario_started) scenario_settled) =
     Some [(''TRV'', ''ok''),
           (''ZZZZ_INVALID'',
            ''Failed to fetch data for ZZZZ_INVALID: No financial data available for ZZZZ_INVALID''),
           (''PGR'', ''ok'')]"
proof -
  have r: "reachable (initialService [])"
    by (rule reachable.init)
  have h: "fst scenario_started = [Await 0, Await 1, Await 2]"
    by code_simp
  have e: "map_option (map summary)
     (batchResult scenario_tickers (fst scenario_started) scenario_settled) =
     Some [(''TRV'', ''ok''),
           (''ZZZZ_INVALID'',
            ''Failed to fetch data for ZZZZ_INVALID: No financial data available for ZZZZ_INVALID''),
           (''PGR'', ''ok'')]"
    by code_simp
  have "\<exists>items. batchResult scenario_tickers (fst scenario_started) scenario_settled = Some items \<and>
      length items = length scenario_tickers"
    using r C7_batch [of scenario_tickers 0 "initialService []" "[]" "initialService []"
        scenario_upstream half "''2024-01-01T00:00:00.000Z''" 1000 Stores]
    unfolding scenario_started_def scenario_settled_def by blast
  then obtain items where
    items: "batchResult scenario_tickers (fst scenario_started) scenario_settled = Some items"
    and "length items = length scenario_tickers"
    by blast
  then have "length items = 3"
    by (simp add: scenario_tickers_def)
  with items have x: "\<exists>items.
      batchResult scenario_tickers (fst scenario_started) scenario_settled = Some items \<and>
      length items = 3"
    by blast
  show ?thesis
    using r h e x by (intro conjI) assumption+
qed

subsection \<open>The market quote request\<close>

text \<open>
  The registration of \<open>fetchMarketData\<close> is never removed: the first call for a ticker
  registers a promise that is already rejected, sends no request, and every later call
  (the cache having no entry) returns that same rejected promise.
\<close>

lemma fetchMarketData_registration_stuck:
  assumes "pendingRequests st (''market_'' @ ticker) = None"
  shows "fst (fetchMarketData ticker None st) = MarketAwait (nextPromise st)"
    and "pendingRequests (snd (fetchMarketData ticker None st)) (''market_'' @ ticker) =
           Some (nextPromise st)"
    and "promises (snd (fetchMarketData ticker None st)) (nextPromise st) =
           Some (Rejected (''Failed to fetch market data for '' @ ticker @
             '': FMP_BASE_URL is not defined''))"
    and "producerCalls (snd (fetchMarketData ticker None st)) = producerCalls st"
    and "fetchMarketData ticker None (snd (fetchMarketData ticker None st)) =
           (MarketAwait (nextPromise st), snd (fetchMarketData ticker None st))"
proof -
  let ?st1 = "snd (fetchMarketData ticker None st)"
  show "fst (fetchMarketData ticker None st) = MarketAwait (nextPromise st)"
    and reg: "pendingRequests ?st1 (''market_'' @ ticker) = Some (nextPromise st)"
    and "promises ?st1 (nextPromise st) =
           Some (Rejected (''Failed to fetch market data for '' @ ticker @
             '': FMP_BASE_URL is not defined''))"
    and "producerCalls ?st1 = producerCalls st"
    using market_new [OF assms] by simp_all
  show "fetchMarketData ticker None ?st1 = (MarketAwait (nextPromise st), ?st1)"
    using market_shared [OF reg] .
qed

end
